theory Spec2Isabelle
  imports Complex_Main
begin

section \<open>The Lorenz notebook: data model\<close>

text \<open>
  The notebook \<^verbatim>\<open>Lorenz Differential Equations.ipynb\<close> defines one function,
  \<^verbatim>\<open>solve_lorenz(N, angle, max_time, sigma, beta, rho)\<close>, with the nested vector
  field \<^verbatim>\<open>lorenz_deriv\<close>.

  Python floats are modelled as real numbers, the finite doubles among them. NaN and
  signed zeros are outside the model; an infinity is modelled only where the code turns
  it into an exception. Rounding to double precision is modelled where it decides a
  result the specification speaks about: the product \<^verbatim>\<open>250*max_time\<close>, whose
  truncation is the number of time samples, and the expression of the initial
  conditions, whose bounds are stated. The remaining arithmetic (the vector field and
  the points of \<^verbatim>\<open>linspace\<close>) is exact. Limits of memory are outside the model.
  Python lists and one-dimensional arrays are HOL lists, a two-dimensional array is a
  list of rows. Every exception the code can raise is a value \<open>Inl e\<close> of a sum type:
  \<open>ValueError\<close>, \<open>IndexError\<close> and \<open>OverflowError\<close> are Python's, \<open>SolverError\<close>
  stands for whatever the ODE solver may raise.
\<close>

datatype error = ValueError | IndexError | OverflowError | SolverError

subsection \<open>The vector field\<close>

text \<open>
  \<^verbatim>\<open>
  def lorenz_deriv(x_y_z, t0, sigma=sigma, beta=beta, rho=rho):
      x, y, z = x_y_z
      return [sigma * (y - x), x * (rho - z) - y, x * y - beta * z]
  \<close>
  The unpacking \<^verbatim>\<open>x, y, z = x_y_z\<close> raises ValueError unless the state has exactly
  three components.
\<close>

definition lorenz_deriv ::
  "real list \<Rightarrow> real \<Rightarrow> real \<Rightarrow> real \<Rightarrow> real \<Rightarrow> error + real list" where
  "lorenz_deriv x_y_z t0 sigma beta rho =
     (case x_y_z of
        [x, y, z] \<Rightarrow> Inr [sigma * (y - x), x * (rho - z) - y, x * y - beta * z]
      | _ \<Rightarrow> Inl ValueError)"

subsection \<open>Library functions the notebook calls\<close>

text \<open>
  Python's \<^verbatim>\<open>int(x)\<close> on a float truncates towards zero.
\<close>

definition py_int :: "real \<Rightarrow> int" where
  "py_int x = (if 0 \<le> x then \<lfloor>x\<rfloor> else \<lceil>x\<rceil>)"

text \<open>
  \<^verbatim>\<open>numpy.linspace(start, stop, num)\<close> with its default \<^verbatim>\<open>endpoint=True\<close>, after
  numpy's implementation: a negative \<^verbatim>\<open>num\<close> raises ValueError; the samples are
  \<^verbatim>\<open>arange(0, num) * step + start\<close> with \<^verbatim>\<open>step = (stop - start) / (num - 1)\<close>
  (divided first and multiplied after when the step is zero); with fewer than two
  samples there is no step and the samples are \<^verbatim>\<open>arange(0, num) * (stop - start) + start\<close>;
  with more than one sample the last one is overwritten by \<^verbatim>\<open>stop\<close>.
\<close>

definition linspace :: "real \<Rightarrow> real \<Rightarrow> int \<Rightarrow> error + real list" where
  "linspace start stop num =
     (if num < 0 then Inl ValueError
      else
        let n = nat num;
            dv = n - 1;
            delta = stop - start;
            y = map real [0..<n];
            y1 = (if 0 < dv then
                    (let step = delta / real dv in
                     if step = 0 then map (\<lambda>v. v / real dv * delta) y
                     else map (\<lambda>v. v * step) y)
                  else map (\<lambda>v. v * delta) y);
            y2 = map (\<lambda>v. v + start) y1
        in Inr (if 1 < n then y2[n - 1 := stop] else y2))"

text \<open>
  The global generator of \<^verbatim>\<open>numpy.random\<close>, the solver \<^verbatim>\<open>scipy.integrate.odeint\<close>
  and the colour map \<^verbatim>\<open>plt.cm.jet\<close> are library code outside the repository. The
  model takes them as parameters:
  \<^item> \<open>random_seed\<close>: the generator state that \<^verbatim>\<open>np.random.seed(s)\<close> installs;
  \<^item> \<open>random_sample\<close>: one draw, returning the sample and the next generator state;
  \<^item> \<open>odeint\<close>: the solver, from the vector field, the initial state and the time grid
    to the array of samples (one row per time point), or an error;
  \<^item> \<open>jet\<close>: the colour at a position of the colour map.
\<close>

record ('g, 'c) library =
  random_seed :: "int \<Rightarrow> 'g"
  random_sample :: "'g \<Rightarrow> real \<times> 'g"
  odeint :: "(real list \<Rightarrow> real \<Rightarrow> error + real list) \<Rightarrow> real list \<Rightarrow> real list
               \<Rightarrow> error + real list list"
  jet :: "real \<Rightarrow> 'c"

text \<open>
  \<^verbatim>\<open>np.random.random((N, 3))\<close> draws \<open>3 * N\<close> samples in row-major order, and raises
  ValueError for a negative dimension.
\<close>

fun random_draws :: "('g \<Rightarrow> real \<times> 'g) \<Rightarrow> nat \<Rightarrow> 'g \<Rightarrow> real list \<times> 'g" where
  "random_draws d 0 g = ([], g)"
| "random_draws d (Suc n) g =
     (case d g of (u, g1) \<Rightarrow>
        (case random_draws d n g1 of (us, g2) \<Rightarrow> (u # us, g2)))"

fun random_rows :: "('g \<Rightarrow> real \<times> 'g) \<Rightarrow> nat \<Rightarrow> 'g \<Rightarrow> real list list \<times> 'g" where
  "random_rows d 0 g = ([], g)"
| "random_rows d (Suc n) g =
     (case random_draws d 3 g of (row, g1) \<Rightarrow>
        (case random_rows d n g1 of (rows, g2) \<Rightarrow> (row # rows, g2)))"

definition random_N3 ::
  "('g \<Rightarrow> real \<times> 'g) \<Rightarrow> int \<Rightarrow> 'g \<Rightarrow> error + (real list list \<times> 'g)" where
  "random_N3 d N g = (if N < 0 then Inl ValueError else Inr (random_rows d (nat N) g))"

subsection \<open>Double-precision rounding\<close>

text \<open>
  IEEE 754 double precision, round to nearest, ties to even. \<open>binary64 x\<close> is the number
  with a 53-bit significand nearest to \<open>x\<close>, ties to the even significand; \<open>expo x\<close> is
  the exponent of the binade of \<open>x\<close> and \<open>ulp x\<close> the spacing of doubles in it. The
  exponent range of \<open>binary64\<close> is not bounded: a result is exact for the normal range of
  doubles, a result of magnitude \<open>2 ^ 1024\<close> or more stands for the infinity that the
  double operation returns, and a result below the normal range is below 1 in
  magnitude, as the subnormal double is. Addition and multiplication of doubles round
  the exact result. A real \<open>x\<close> is a double when \<open>binary64 x = x\<close>.
\<close>

definition expo :: "real \<Rightarrow> int" where
  "expo x = \<lfloor>log 2 \<bar>x\<bar>\<rfloor>"

definition ulp :: "real \<Rightarrow> real" where
  "ulp x = 2 powi (expo x - 52)"

definition round_half_even :: "real \<Rightarrow> int" where
  "round_half_even x =
     (if x - of_int \<lfloor>x\<rfloor> < 1 / 2 then \<lfloor>x\<rfloor>
      else if 1 / 2 < x - of_int \<lfloor>x\<rfloor> then \<lfloor>x\<rfloor> + 1
      else if even \<lfloor>x\<rfloor> then \<lfloor>x\<rfloor> else \<lfloor>x\<rfloor> + 1)"

definition binary64 :: "real \<Rightarrow> real" where
  "binary64 x = (if x = 0 then 0 else of_int (round_half_even (x / ulp x)) * ulp x)"

definition fadd :: "real \<Rightarrow> real \<Rightarrow> real" where
  "fadd x y = binary64 (x + y)"

definition fmul :: "real \<Rightarrow> real \<Rightarrow> real" where
  "fmul x y = binary64 (x * y)"

text \<open>
  \<^verbatim>\<open>-15 + 30 * u\<close>, evaluated in double precision.
\<close>

definition coordinate_binary64 :: "real \<Rightarrow> real" where
  "coordinate_binary64 u = fadd (- 15) (fmul 30 u)"

subsection \<open>The steps of \<^verbatim>\<open>solve_lorenz\<close>\<close>

text \<open>
  \<^verbatim>\<open>
  np.random.seed(1)
  x0 = -15 + 30 * np.random.random((N, 3))
  \<close>
  The seeding overwrites the global generator state \<open>g\<close> the call starts in.
\<close>

definition initial_conditions ::
  "('g, 'c) library \<Rightarrow> 'g \<Rightarrow> int \<Rightarrow> error + (real list list \<times> 'g)" where
  "initial_conditions lib g N =
     (case random_N3 (random_sample lib) N (random_seed lib 1) of
        Inl e \<Rightarrow> Inl e
      | Inr (u, g') \<Rightarrow> Inr (map (map (\<lambda>v. - 15 + 30 * v)) u, g'))"

text \<open>
  \<^verbatim>\<open>t = np.linspace(0, max_time, int(250*max_time))\<close>

  The product is a double product, and \<^verbatim>\<open>int\<close> truncates the rounded product. When
  the product overflows it is an infinity, and \<^verbatim>\<open>int\<close> of an infinity raises
  OverflowError.
\<close>

definition time_grid :: "real \<Rightarrow> error + real list" where
  "time_grid max_time =
     (if 2 ^ 1024 \<le> \<bar>fmul 250 max_time\<bar> then Inl OverflowError
      else linspace 0 max_time (py_int (fmul 250 max_time)))"

text \<open>
  \<^verbatim>\<open>
  x_t = np.asarray([integrate.odeint(lorenz_deriv, x0i, t) for x0i in x0])
  \<close>
  The comprehension calls the solver once per initial condition, in order, with the same
  grid \<open>t\<close>; the first call that raises ends it.
\<close>

fun collect :: "(error + 'a) list \<Rightarrow> error + 'a list" where
  "collect [] = Inr []"
| "collect (r # rs) =
     (case r of
        Inl e \<Rightarrow> Inl e
      | Inr v \<Rightarrow> (case collect rs of Inl e \<Rightarrow> Inl e | Inr vs \<Rightarrow> Inr (v # vs)))"

definition trajectories ::
  "('g, 'c) library \<Rightarrow> real \<Rightarrow> real \<Rightarrow> real \<Rightarrow> real list list \<Rightarrow> real list
     \<Rightarrow> error + real list list list" where
  "trajectories lib sigma beta rho x0 t =
     collect (map (\<lambda>x0i. odeint lib (\<lambda>x_y_z t0. lorenz_deriv x_y_z t0 sigma beta rho) x0i t) x0)"

text \<open>
  \<^verbatim>\<open>
  colors = plt.cm.jet(np.linspace(0, 1, N))
  for i in range(N):
      x, y, z = x_t[i,:,:].T
      lines = ax.plot(x, y, z, '-', c=colors[i])
      plt.setp(lines, linewidth=2)
  \<close>
  A plotted line is recorded with its three coordinate sequences, its colour and its
  width. Indexing past the end raises IndexError; the unpacking of the transposed
  trajectory raises ValueError unless every sample has three components.
\<close>

record 'c line =
  line_x :: "real list"
  line_y :: "real list"
  line_z :: "real list"
  line_color :: 'c
  line_width :: nat

definition get_item :: "'a list \<Rightarrow> nat \<Rightarrow> error + 'a" where
  "get_item l i = (if i < length l then Inr (l ! i) else Inl IndexError)"

definition unpack_xyz :: "real list list \<Rightarrow> error + (real list \<times> real list \<times> real list)" where
  "unpack_xyz traj =
     (if list_all (\<lambda>row. length row = 3) traj
      then Inr (map (\<lambda>row. row ! 0) traj, map (\<lambda>row. row ! 1) traj, map (\<lambda>row. row ! 2) traj)
      else Inl ValueError)"

definition plot_one :: "real list list list \<Rightarrow> 'c list \<Rightarrow> nat \<Rightarrow> error + 'c line" where
  "plot_one x_t colors i =
     (case get_item x_t i of
        Inl e \<Rightarrow> Inl e
      | Inr traj \<Rightarrow>
          (case unpack_xyz traj of
             Inl e \<Rightarrow> Inl e
           | Inr (x, y, z) \<Rightarrow>
               (case get_item colors i of
                  Inl e \<Rightarrow> Inl e
                | Inr c \<Rightarrow> Inr \<lparr>line_x = x, line_y = y, line_z = z, line_color = c, line_width = 2\<rparr>)))"

definition plot_all :: "real list list list \<Rightarrow> 'c list \<Rightarrow> int \<Rightarrow> error + 'c line list" where
  "plot_all x_t colors N = collect (map (plot_one x_t colors) [0..<nat N])"

text \<open>
  What one call of \<^verbatim>\<open>solve_lorenz\<close> computes and draws: the initial conditions, the
  time grid, the trajectories, the colours, the lines drawn on the axes and the camera
  orientation of \<^verbatim>\<open>ax.view_init(30, angle)\<close>.
\<close>

record 'c outcome =
  out_x0 :: "real list list"
  out_t :: "real list"
  out_x_t :: "real list list list"
  out_colors :: "'c list"
  out_lines :: "'c line list"
  out_view :: "real \<times> real"

text \<open>
  The whole function, from the global generator state \<open>g\<close> it is called in to its outcome
  and the generator state it leaves, or to the first exception raised.
\<close>

definition solve_lorenz ::
  "('g, 'c) library \<Rightarrow> 'g \<Rightarrow> int \<Rightarrow> real \<Rightarrow> real \<Rightarrow> real \<Rightarrow> real \<Rightarrow> real
     \<Rightarrow> error + ('c outcome \<times> 'g)" where
  "solve_lorenz lib g N angle max_time sigma beta rho =
     (case initial_conditions lib g N of
        Inl e \<Rightarrow> Inl e
      | Inr (x0v, g') \<Rightarrow>
          (case time_grid max_time of
             Inl e \<Rightarrow> Inl e
           | Inr tv \<Rightarrow>
               (case trajectories lib sigma beta rho x0v tv of
                  Inl e \<Rightarrow> Inl e
                | Inr x_tv \<Rightarrow>
                    (case linspace 0 1 N of
                       Inl e \<Rightarrow> Inl e
                     | Inr ps \<Rightarrow>
                         (case plot_all x_tv (map (jet lib) ps) N of
                            Inl e \<Rightarrow> Inl e
                          | Inr ls \<Rightarrow>
                              Inr (\<lparr>out_x0 = x0v, out_t = tv, out_x_t = x_tv,
                                     out_colors = map (jet lib) ps, out_lines = ls,
                                     out_view = (30, angle)\<rparr>, g'))))))"

subsection \<open>What the model assumes of the library\<close>

text \<open>
  \<^verbatim>\<open>np.random.random\<close> returns samples of the half-open interval \<open>[0, 1)\<close>.
\<close>

definition unit_samples :: "('g \<Rightarrow> real \<times> 'g) \<Rightarrow> bool" where
  "unit_samples d = (\<forall>g. 0 \<le> fst (d g) \<and> fst (d g) < 1)"

text \<open>
  \<^verbatim>\<open>odeint\<close> returns an array of shape \<^verbatim>\<open>(len(t), len(y0))\<close>, with the initial
  value \<^verbatim>\<open>y0\<close> in the first row.
\<close>

definition odeint_rows ::
  "((real list \<Rightarrow> real \<Rightarrow> error + real list) \<Rightarrow> real list \<Rightarrow> real list
      \<Rightarrow> error + real list list) \<Rightarrow> bool" where
  "odeint_rows od = (\<forall>f y0 tv rows. od f y0 tv = Inr rows \<longrightarrow> length rows = length tv)"

definition odeint_initial ::
  "((real list \<Rightarrow> real \<Rightarrow> error + real list) \<Rightarrow> real list \<Rightarrow> real list
      \<Rightarrow> error + real list list) \<Rightarrow> bool" where
  "odeint_initial od =
     (\<forall>f y0 tv rows. od f y0 tv = Inr rows \<longrightarrow> tv \<noteq> [] \<longrightarrow> rows ! 0 = y0)"

subsection \<open>A concrete library\<close>

text \<open>
  One instance of the library parameters, on which the model runs: a small linear
  congruential generator, the explicit Euler method as the solver and a grey scale as
  the colour map. It meets the assumptions above, and the theorems below are
  instantiated on it.
\<close>

definition lcg_seed :: "int \<Rightarrow> nat" where
  "lcg_seed s = nat s mod 16"

definition lcg_sample :: "nat \<Rightarrow> real \<times> nat" where
  "lcg_sample g = (real ((5 * g + 11) mod 16) / 16, (5 * g + 11) mod 16)"

fun euler ::
  "(real list \<Rightarrow> real \<Rightarrow> error + real list) \<Rightarrow> real list \<Rightarrow> real list
     \<Rightarrow> error + real list list" where
  "euler f y [] = Inr []"
| "euler f y [t0] = Inr [y]"
| "euler f y (t0 # t1 # ts) =
     (case f y t0 of
        Inl e \<Rightarrow> Inl e
      | Inr d \<Rightarrow>
          (case euler f (map2 (\<lambda>a b. a + (t1 - t0) * b) y d) (t1 # ts) of
             Inl e \<Rightarrow> Inl e
           | Inr rows \<Rightarrow> Inr (y # rows)))"

definition grey :: "real \<Rightarrow> real \<times> real \<times> real \<times> real" where
  "grey v = (v, v, v, 1)"

definition demo :: "(nat, real \<times> real \<times> real \<times> real) library" where
  "demo = \<lparr>random_seed = lcg_seed, random_sample = lcg_sample, odeint = euler, jet = grey\<rparr>"

section \<open>The vector field\<close>

text \<open>
  C1. For every state \<open>(x, y, z)\<close> and all coefficients, \<open>lorenz_deriv\<close> returns exactly
  the triple \<open>(sigma*(y-x), x*(rho-z)-y, x*y-beta*z)\<close>.
\<close>

theorem lorenz_deriv_triple:
  "lorenz_deriv [x, y, z] t0 sigma beta rho =
     Inr [sigma * (y - x), x * (rho - z) - y, x * y - beta * z]"
  by (simp add: lorenz_deriv_def)

text \<open>
  C2. At the state \<open>(0, 0, 0)\<close> the vector field is \<open>(0, 0, 0)\<close>, whatever the
  coefficients are.
\<close>

theorem lorenz_deriv_origin:
  "lorenz_deriv [0, 0, 0] t0 sigma beta rho = Inr [0, 0, 0]"
  by (simp add: lorenz_deriv_def)

section \<open>Facts about the steps\<close>

subsection \<open>The comprehension\<close>

lemma collect_length: "collect rs = Inr vs \<Longrightarrow> length vs = length rs"
  by (induction rs arbitrary: vs) (auto split: sum.splits)

lemma collect_nth: "collect rs = Inr vs \<Longrightarrow> i < length rs \<Longrightarrow> rs ! i = Inr (vs ! i)"
proof (induction rs arbitrary: vs i)
  case Nil
  then show ?case by simp
next
  case (Cons r rs)
  then show ?case
    by (cases i) (auto split: sum.splits)
qed

subsection \<open>Truncation and \<^verbatim>\<open>linspace\<close>\<close>

lemma py_int_nonneg: "0 \<le> x \<Longrightarrow> py_int x = \<lfloor>x\<rfloor>"
  by (simp add: py_int_def)

lemma py_int_of_int: "py_int (of_int k) = k"
  by (simp add: py_int_def)

lemma linspace_negative: "n < 0 \<Longrightarrow> linspace a b n = Inl ValueError"
  by (simp add: linspace_def)

lemma linspace_length: "linspace a b n = Inr pts \<Longrightarrow> length pts = nat n"
  by (auto simp: linspace_def Let_def split: if_splits)

lemma linspace_defined: "0 \<le> n \<Longrightarrow> \<exists>pts. linspace a b n = Inr pts"
  by (simp add: linspace_def Let_def)

lemma linspace_nth:
  assumes "linspace a b n = Inr pts" and "2 \<le> n" and "i < nat n"
  shows "pts ! i = a + real i * ((b - a) / real (nat n - 1))"
proof -
  define m where "m = nat n"
  have m: "2 \<le> m" "i < m" using assms by (simp_all add: m_def)
  have pos: "0 < real (m - 1)" using m by simp
  show ?thesis
  proof (cases "i = m - 1")
    case True
    have "pts ! i = b"
      using assms m True by (auto simp: linspace_def Let_def m_def split: if_splits)
    moreover have "a + real i * ((b - a) / real (m - 1)) = b"
      using True pos by simp
    ultimately show ?thesis by (simp add: m_def)
  next
    case False
    then show ?thesis
      using assms m by (auto simp: linspace_def Let_def m_def split: if_splits)
  qed
qed

subsection \<open>Random draws\<close>

lemma random_draws_length: "random_draws d n g = (us, g') \<Longrightarrow> length us = n"
  by (induction n arbitrary: g us g') (auto split: prod.splits)

lemma random_draws_unit:
  "unit_samples d \<Longrightarrow> random_draws d n g = (us, g') \<Longrightarrow> u \<in> set us \<Longrightarrow> 0 \<le> u \<and> u < 1"
proof (induction n arbitrary: g us g')
  case 0
  then show ?case by simp
next
  case (Suc n)
  obtain v g1 where d: "d g = (v, g1)" by (cases "d g")
  obtain vs g2 where r: "random_draws d n g1 = (vs, g2)" by (cases "random_draws d n g1")
  from Suc.prems(2) d r have us: "us = v # vs" by simp
  have "0 \<le> v \<and> v < 1"
    using Suc.prems(1) d unfolding unit_samples_def by (metis fst_conv)
  then show ?case
    using Suc.IH [OF Suc.prems(1) r] Suc.prems(3) us by auto
qed

lemma random_rows_length: "random_rows d n g = (rows, g') \<Longrightarrow> length rows = n"
  by (induction n arbitrary: g rows g') (auto split: prod.splits)

lemma random_rows_unit:
  "unit_samples d \<Longrightarrow> random_rows d n g = (rows, g') \<Longrightarrow> row \<in> set rows \<Longrightarrow>
     length row = 3 \<and> (\<forall>u\<in>set row. 0 \<le> u \<and> u < 1)"
proof (induction n arbitrary: g rows g')
  case 0
  then show ?case by simp
next
  case (Suc n)
  obtain r g1 where d: "random_draws d 3 g = (r, g1)" by (cases "random_draws d 3 g")
  obtain rs g2 where r: "random_rows d n g1 = (rs, g2)" by (cases "random_rows d n g1")
  from Suc.prems(2) d r have rows: "rows = r # rs" by simp
  have "length r = 3 \<and> (\<forall>u\<in>set r. 0 \<le> u \<and> u < 1)"
    using random_draws_length [OF d] random_draws_unit [OF Suc.prems(1) d] by blast
  then show ?case
    using Suc.IH [OF Suc.prems(1) r] Suc.prems(3) rows by auto
qed

subsection \<open>The concrete library meets the assumptions\<close>

lemma unit_samples_lcg: "unit_samples lcg_sample"
  by (simp add: unit_samples_def lcg_sample_def)

lemma euler_length: "euler f y tv = Inr rows \<Longrightarrow> length rows = length tv"
  by (induction f y tv arbitrary: rows rule: euler.induct) (auto split: sum.splits)

lemma euler_first: "euler f y tv = Inr rows \<Longrightarrow> tv \<noteq> [] \<Longrightarrow> rows ! 0 = y"
  by (induction f y tv arbitrary: rows rule: euler.induct) (auto split: sum.splits)

lemma odeint_rows_euler: "odeint_rows euler"
  unfolding odeint_rows_def using euler_length by blast

lemma odeint_initial_euler: "odeint_initial euler"
  unfolding odeint_initial_def using euler_first by blast

subsection \<open>A successful run, step by step\<close>

lemma solve_lorenz_Inr:
  assumes "solve_lorenz lib g N angle max_time sigma beta rho = Inr (out, g')"
  shows "initial_conditions lib g N = Inr (out_x0 out, g')"
    and "time_grid max_time = Inr (out_t out)"
    and "trajectories lib sigma beta rho (out_x0 out) (out_t out) = Inr (out_x_t out)"
    and "\<exists>ps. linspace 0 1 N = Inr ps \<and> out_colors out = map (jet lib) ps"
    and "plot_all (out_x_t out) (out_colors out) N = Inr (out_lines out)"
    and "out_view out = (30, angle)"
  using assms by (auto simp: solve_lorenz_def split: sum.splits prod.splits)

lemma initial_conditions_Inr:
  assumes "initial_conditions lib g N = Inr (p, g')"
  shows "0 \<le> N"
    and "\<exists>u. random_rows (random_sample lib) (nat N) (random_seed lib 1) = (u, g')
             \<and> p = map (map (\<lambda>v. - 15 + 30 * v)) u"
  using assms
  by (auto simp: initial_conditions_def random_N3_def split: sum.splits prod.splits if_splits)

lemma initial_conditions_length:
  "initial_conditions lib g N = Inr (p, g') \<Longrightarrow> length p = nat N"
  using initial_conditions_Inr(2) random_rows_length by fastforce

lemma initial_conditions_range:
  assumes "unit_samples (random_sample lib)"
    and "initial_conditions lib g N = Inr (p, g')"
    and "row \<in> set p" and "v \<in> set row"
  shows "- 15 \<le> v \<and> v < 15"
proof -
  obtain u where u: "random_rows (random_sample lib) (nat N) (random_seed lib 1) = (u, g')"
    and p: "p = map (map (\<lambda>v. - 15 + 30 * v)) u"
    using initial_conditions_Inr(2) [OF assms(2)] by blast
  from assms(3) p obtain r where r: "r \<in> set u" and row: "row = map (\<lambda>v. - 15 + 30 * v) r"
    by auto
  from assms(4) row obtain w where w: "w \<in> set r" and v: "v = - 15 + 30 * w"
    by auto
  have "length r = 3 \<and> (\<forall>u\<in>set r. 0 \<le> u \<and> u < 1)"
    using random_rows_unit [OF assms(1) u r] .
  then show ?thesis
    using w v by auto
qed

lemma trajectories_Inr:
  assumes "trajectories lib sigma beta rho p tv = Inr trs"
  shows "length trs = length p"
    and "i < length p \<Longrightarrow>
           odeint lib (\<lambda>x_y_z t0. lorenz_deriv x_y_z t0 sigma beta rho) (p ! i) tv = Inr (trs ! i)"
proof -
  show "length trs = length p"
    using collect_length [OF assms [unfolded trajectories_def]] by simp
  show "odeint lib (\<lambda>x_y_z t0. lorenz_deriv x_y_z t0 sigma beta rho) (p ! i) tv = Inr (trs ! i)"
    if "i < length p"
    using collect_nth [OF assms [unfolded trajectories_def], of i] that by simp
qed

lemma plot_all_Inr:
  assumes "plot_all trs cs N = Inr ls"
  shows "length ls = nat N"
    and "i < nat N \<Longrightarrow> plot_one trs cs i = Inr (ls ! i)"
proof -
  show "length ls = nat N"
    using collect_length [OF assms [unfolded plot_all_def]] by simp
  show "plot_one trs cs i = Inr (ls ! i)" if "i < nat N"
    using collect_nth [OF assms [unfolded plot_all_def], of i] that by simp
qed

lemma plot_one_Inr:
  assumes "plot_one trs cs i = Inr l"
  shows "i < length trs" and "i < length cs" and "line_color l = cs ! i"
    and "unpack_xyz (trs ! i) = Inr (line_x l, line_y l, line_z l)"
  using assms
  by (auto simp: plot_one_def get_item_def split: sum.splits prod.splits if_splits)

lemma random_rows_width:
  "random_rows d n g = (rows, g') \<Longrightarrow> row \<in> set rows \<Longrightarrow> length row = 3"
proof (induction n arbitrary: g rows g')
  case 0
  then show ?case by simp
next
  case (Suc n)
  obtain r g1 where d: "random_draws d 3 g = (r, g1)" by (cases "random_draws d 3 g")
  obtain rs g2 where r: "random_rows d n g1 = (rs, g2)" by (cases "random_rows d n g1")
  from Suc.prems(1) d r have rows: "rows = r # rs" by simp
  show ?case
    using Suc.IH [OF r] Suc.prems(2) rows random_draws_length [OF d] by auto
qed

lemma initial_conditions_rows:
  assumes "initial_conditions lib g N = Inr (p, g')" and "row \<in> set p"
  shows "length row = 3"
proof -
  obtain u where u: "random_rows (random_sample lib) (nat N) (random_seed lib 1) = (u, g')"
    and p: "p = map (map (\<lambda>v. - 15 + 30 * v)) u"
    using initial_conditions_Inr(2) [OF assms(1)] by blast
  from assms(2) p obtain r where "r \<in> set u" and "row = map (\<lambda>v. - 15 + 30 * v) r"
    by auto
  then show ?thesis
    using random_rows_width [OF u] by simp
qed

section \<open>Initial conditions\<close>

text \<open>
  C3. For the fixed seed 1 and every \<open>N\<close>, the initial conditions are a function of the
  seeded generator and \<open>N\<close> alone: the generator state the call starts in does not
  matter. There are \<open>N\<close> points of three coordinates, and every coordinate lies in
  \<open>[-15, 15]\<close>.
\<close>

theorem initial_conditions_seeded:
  "unit_samples (random_sample lib) \<Longrightarrow>
     initial_conditions lib g1 N = initial_conditions lib g2 N \<and>
     (\<forall>p g'. initial_conditions lib g1 N = Inr (p, g') \<longrightarrow>
        length p = nat N \<and>
        (\<forall>row\<in>set p. length row = 3 \<and> (\<forall>v\<in>set row. - 15 \<le> v \<and> v \<le> 15)))"
proof -
  assume unit: "unit_samples (random_sample lib)"
  have same: "initial_conditions lib g1 N = initial_conditions lib g2 N"
    by (simp add: initial_conditions_def)
  have "length p = nat N \<and>
        (\<forall>row\<in>set p. length row = 3 \<and> (\<forall>v\<in>set row. - 15 \<le> v \<and> v \<le> 15))"
    if run: "initial_conditions lib g1 N = Inr (p, g')" for p g'
  proof (intro conjI ballI)
    show "length p = nat N"
      using run by (rule initial_conditions_length)
  next
    fix row assume "row \<in> set p"
    then show "length row = 3"
      by (rule initial_conditions_rows [OF run])
  next
    fix row v assume "row \<in> set p" "v \<in> set row"
    then show "- 15 \<le> v" and "v \<le> 15"
      using initial_conditions_range [OF unit run] by fastforce+
  qed
  with same show ?thesis by blast
qed

theorem initial_conditions_seeded_witness:
  "unit_samples (random_sample demo) \<and>
   initial_conditions demo 5 2 = initial_conditions demo 9 2 \<and>
   initial_conditions demo 5 2
     = Inr ([[- 15, 45 / 8, - (45 / 4)], [- (45 / 8), - (15 / 2), 105 / 8]], 15)"
proof -
  have unit: "unit_samples (random_sample demo)"
    by (simp add: demo_def unit_samples_lcg)
  have "initial_conditions demo 5 2
     = Inr ([[- 15, 45 / 8, - (45 / 4)], [- (45 / 8), - (15 / 2), 105 / 8]], 15)"
    by code_simp
  with unit initial_conditions_seeded [OF unit, of 5 2 9] show ?thesis
    by simp
qed

text \<open>
  C9. Every coordinate of every initial condition is strictly below 15, since it is
  \<open>-15 + 30 * u\<close> with \<open>u < 1\<close>; the lower end \<open>-15\<close> is reached by the sample
  \<open>u = 0\<close>.
\<close>

theorem initial_conditions_below_15:
  "unit_samples (random_sample lib) \<Longrightarrow> initial_conditions lib g N = Inr (p, g') \<Longrightarrow>
     (\<forall>row\<in>set p. \<forall>v\<in>set row. v < 15) \<and>
     (0 < N \<and> fst (random_sample lib (random_seed lib 1)) = 0 \<longrightarrow> hd (hd p) = - 15)"
proof -
  assume unit: "unit_samples (random_sample lib)"
    and run: "initial_conditions lib g N = Inr (p, g')"
  have below: "\<forall>row\<in>set p. \<forall>v\<in>set row. v < 15"
    using initial_conditions_range [OF unit run] by blast
  have "hd (hd p) = - 15"
    if "0 < N" and zero: "fst (random_sample lib (random_seed lib 1)) = 0"
  proof -
    obtain n where n: "nat N = Suc n"
      using \<open>0 < N\<close> by (cases "nat N") auto
    obtain u where u: "random_rows (random_sample lib) (nat N) (random_seed lib 1) = (u, g')"
      and p: "p = map (map (\<lambda>v. - 15 + 30 * v)) u"
      using initial_conditions_Inr(2) [OF run] by blast
    from u zero have "hd (hd u) = 0"
      unfolding n by (auto simp: numeral_3_eq_3 split: prod.splits)
    moreover from u have "u \<noteq> []" "hd u \<noteq> []"
      unfolding n by (auto simp: numeral_3_eq_3 split: prod.splits)
    ultimately show ?thesis
      using p by (simp add: hd_map)
  qed
  with below show ?thesis by blast
qed

theorem initial_conditions_below_15_witness:
  "unit_samples (random_sample demo) \<and>
   initial_conditions demo 5 2
     = Inr ([[- 15, 45 / 8, - (45 / 4)], [- (45 / 8), - (15 / 2), 105 / 8]], 15) \<and>
   (0::int) < 2 \<and> fst (random_sample demo (random_seed demo 1)) = 0 \<and>
   list_all (list_all (\<lambda>v. v < 15))
     [[- 15, 45 / 8, - (45 / 4)], [- (45 / 8), - (15 / 2), 105 / 8 :: real]] \<and>
   hd (hd [[- 15, 45 / 8, - (45 / 4)], [- (45 / 8), - (15 / 2), 105 / 8 :: real]]) = - 15"
proof -
  have unit: "unit_samples (random_sample demo)"
    by (simp add: demo_def unit_samples_lcg)
  have run: "initial_conditions demo 5 2
     = Inr ([[- 15, 45 / 8, - (45 / 4)], [- (45 / 8), - (15 / 2), 105 / 8]], 15)"
    by code_simp
  have zero: "fst (random_sample demo (random_seed demo 1)) = 0"
    by (simp add: demo_def lcg_seed_def lcg_sample_def)
  show ?thesis
    using unit run zero initial_conditions_below_15 [OF unit run] by simp
qed

subsection \<open>The bounds in double precision\<close>

text \<open>
  Rounding is monotone and fixes the numbers it can represent. The largest double below 1
  is \<open>1 - 1 / 2 ^ 53\<close>; there \<^verbatim>\<open>30 * u\<close> rounds down to \<open>30 - 1 / 2 ^ 48\<close> and the
  coordinate is \<open>15 - 1 / 2 ^ 48\<close>, so the bounds of C3 and C9 also hold for the rounded
  expression.
\<close>

lemma two_powr_int: "(2::real) powr real_of_int k = 2 powi k"
  by (rule powr_real_of_int') simp_all

lemma two_powr_int_Suc: "(2::real) powr (real_of_int k + 1) = 2 powi (k + 1)"
  using two_powr_int [of "k + 1"] by simp

lemma expo_iff: "x \<noteq> 0 \<Longrightarrow> expo x = e \<longleftrightarrow> 2 powi e \<le> \<bar>x\<bar> \<and> \<bar>x\<bar> < 2 powi (e + 1)"
  using floor_log_eq_powr_iff [of "\<bar>x\<bar>" 2 e]
  by (simp add: expo_def two_powr_int two_powr_int_Suc)

lemma expo_bounds:
  assumes "x \<noteq> 0"
  shows "2 powi expo x \<le> \<bar>x\<bar>" and "\<bar>x\<bar> < 2 powi (expo x + 1)"
  using expo_iff [OF assms, of "expo x"] by simp_all

lemma expo_eqI:
  assumes "2 powi e \<le> \<bar>x\<bar>" and "\<bar>x\<bar> < 2 powi (e + 1)"
  shows "expo x = e"
proof -
  have "0 < (2::real) powi e" by simp
  with assms(1) have "0 < \<bar>x\<bar>" by linarith
  then have "x \<noteq> 0" by simp
  then show ?thesis
    using expo_iff assms by blast
qed

lemma expo_minus: "expo (- x) = expo x"
  by (simp add: expo_def)

lemma expo_mono:
  assumes "0 < x" and "x \<le> y"
  shows "expo x \<le> expo y"
  unfolding expo_def using assms by (intro floor_mono) simp

lemma ulp_pos: "0 < ulp x"
  by (simp add: ulp_def)

lemma ulp_minus: "ulp (- x) = ulp x"
  by (simp add: ulp_def expo_minus)

lemma round_half_even_of_int: "round_half_even (of_int k) = k"
  by (simp add: round_half_even_def)

lemma round_half_even_mono:
  assumes "a \<le> b"
  shows "round_half_even a \<le> round_half_even b"
proof (cases "\<lfloor>a\<rfloor> = \<lfloor>b\<rfloor>")
  case True
  then show ?thesis
    using assms by (auto simp: round_half_even_def)
next
  case False
  then have "\<lfloor>a\<rfloor> + 1 \<le> \<lfloor>b\<rfloor>"
    using floor_mono [OF assms] by linarith
  moreover have "round_half_even a \<le> \<lfloor>a\<rfloor> + 1"
    by (simp add: round_half_even_def)
  moreover have "\<lfloor>b\<rfloor> \<le> round_half_even b"
    by (simp add: round_half_even_def)
  ultimately show ?thesis
    by linarith
qed

lemma round_half_even_minus: "round_half_even (- a) = - round_half_even a"
proof (cases "a \<in> \<int>")
  case True
  then obtain k where "a = of_int k" by (auto elim: Ints_cases)
  then show ?thesis
    by (simp add: round_half_even_of_int flip: of_int_minus)
next
  case False
  then have "a \<noteq> of_int \<lfloor>a\<rfloor>"
    by (metis Ints_of_int)
  then have fl: "\<lfloor>- a\<rfloor> = - \<lfloor>a\<rfloor> - 1"
    by (simp add: floor_minus ceiling_altdef)
  show ?thesis
    unfolding round_half_even_def fl by (auto simp: algebra_simps)
qed

lemma binary64_zero: "binary64 0 = 0"
  by (simp add: binary64_def)

lemma binary64_minus: "binary64 (- x) = - binary64 x"
  by (simp add: binary64_def ulp_minus round_half_even_minus)

text \<open>Within its binade a positive number is rounded to a multiple of its ulp
  between the two powers of two that bound the binade.\<close>

lemma scaled_bounds:
  assumes "0 < x"
  shows "2 ^ 52 \<le> x / ulp x" and "x / ulp x < 2 ^ 53"
proof -
  have x: "x \<noteq> 0" "\<bar>x\<bar> = x" using assms by simp_all
  have lo: "2 powi expo x \<le> x" and hi: "x < 2 powi (expo x + 1)"
    using expo_bounds [OF x(1)] x(2) by simp_all
  have u: "ulp x * 2 ^ 52 = 2 powi expo x"
    by (simp add: ulp_def power_int_diff)
  have u': "ulp x * 2 ^ 53 = 2 powi (expo x + 1)"
    by (simp add: ulp_def power_int_diff power_int_add)
  show "2 ^ 52 \<le> x / ulp x"
    using lo u ulp_pos [of x] by (simp add: le_divide_eq mult.commute)
  show "x / ulp x < 2 ^ 53"
    using hi u' ulp_pos [of x] by (simp add: divide_less_eq mult.commute)
qed

lemma binary64_binade:
  assumes "0 < x"
  shows "2 powi expo x \<le> binary64 x" and "binary64 x \<le> 2 powi (expo x + 1)"
proof -
  have x: "x \<noteq> 0" using assms by simp
  have u: "2 ^ 52 * ulp x = 2 powi expo x"
    by (simp add: ulp_def power_int_diff)
  have u': "2 ^ 53 * ulp x = 2 powi (expo x + 1)"
    by (simp add: ulp_def power_int_diff power_int_add)
  have "round_half_even (of_int (2 ^ 52)) \<le> round_half_even (x / ulp x)"
    using scaled_bounds(1) [OF assms] by (intro round_half_even_mono) simp
  then have "(2 ^ 52 :: int) \<le> round_half_even (x / ulp x)"
    by (simp only: round_half_even_of_int)
  then have "(2 ^ 52 :: real) \<le> of_int (round_half_even (x / ulp x))"
    by (metis of_int_le_iff of_int_numeral of_int_power)
  then have "2 ^ 52 * ulp x \<le> of_int (round_half_even (x / ulp x)) * ulp x"
    using ulp_pos [of x] by (simp only: mult_le_cancel_right_pos)
  then show "2 powi expo x \<le> binary64 x"
    using x by (simp only: u binary64_def if_False)
  have "round_half_even (x / ulp x) \<le> round_half_even (of_int (2 ^ 53))"
    using scaled_bounds(2) [OF assms] by (intro round_half_even_mono) simp
  then have "round_half_even (x / ulp x) \<le> (2 ^ 53 :: int)"
    by (simp only: round_half_even_of_int)
  then have "of_int (round_half_even (x / ulp x)) \<le> (2 ^ 53 :: real)"
    by (metis of_int_le_iff of_int_numeral of_int_power)
  then have "of_int (round_half_even (x / ulp x)) * ulp x \<le> 2 ^ 53 * ulp x"
    using ulp_pos [of x] by (simp only: mult_le_cancel_right_pos)
  then show "binary64 x \<le> 2 powi (expo x + 1)"
    using x by (simp only: u' binary64_def if_False)
qed

lemma binary64_mono_pos:
  assumes "0 < x" and "x \<le> y"
  shows "binary64 x \<le> binary64 y"
proof (cases "expo x = expo y")
  case True
  then have u: "ulp y = ulp x"
    by (simp add: ulp_def)
  have "x / ulp x \<le> y / ulp x"
    using assms(2) ulp_pos [of x] by (simp add: divide_right_mono)
  then have "round_half_even (x / ulp x) \<le> round_half_even (y / ulp x)"
    by (rule round_half_even_mono)
  then have "of_int (round_half_even (x / ulp x)) * ulp x
               \<le> of_int (round_half_even (y / ulp x)) * ulp x"
    using ulp_pos [of x] by (simp only: mult_le_cancel_right_pos of_int_le_iff)
  then show ?thesis
    using assms by (simp add: binary64_def u)
next
  case False
  have y: "0 < y" using assms by simp
  from False have "expo x + 1 \<le> expo y"
    using expo_mono [OF assms] by simp
  then have "(2::real) powi (expo x + 1) \<le> 2 powi expo y"
    by (intro power_int_increasing) simp_all
  then show ?thesis
    using binary64_binade(2) [OF assms(1)] binary64_binade(1) [OF y] by linarith
qed

lemma binary64_nonneg: "0 \<le> x \<Longrightarrow> 0 \<le> binary64 x"
proof (cases "x = 0")
  case True
  then show ?thesis by (simp add: binary64_zero)
next
  case False
  assume "0 \<le> x"
  with False have "0 < x" by simp
  have "0 < (2::real) powi expo x" by simp
  then show ?thesis
    using binary64_binade(1) [OF \<open>0 < x\<close>] by linarith
qed

lemma binary64_mono:
  assumes "x \<le> y"
  shows "binary64 x \<le> binary64 y"
proof -
  consider "0 < x" | "y < 0" | "x \<le> 0" "0 \<le> y"
    by linarith
  then show ?thesis
  proof cases
    case 1
    then show ?thesis using assms by (rule binary64_mono_pos)
  next
    case 2
    then have "binary64 (- y) \<le> binary64 (- x)"
      using assms by (intro binary64_mono_pos) simp_all
    then show ?thesis
      by (simp add: binary64_minus)
  next
    case 3
    have "0 \<le> binary64 (- x)"
      using 3(1) by (intro binary64_nonneg) simp
    then have "binary64 x \<le> 0"
      by (simp add: binary64_minus)
    then show ?thesis
      using binary64_nonneg [OF 3(2)] by linarith
  qed
qed

text \<open>Evaluation on a concrete number, given its binade and its rounded significand.\<close>

lemma binary64_eqI:
  assumes "2 powi e \<le> \<bar>x\<bar>" and "\<bar>x\<bar> < 2 powi (e + 1)"
    and "round_half_even (x / 2 powi (e - 52)) = n"
  shows "binary64 x = of_int n * 2 powi (e - 52)"
proof -
  have e: "expo x = e"
    using assms(1,2) by (rule expo_eqI)
  have "0 < (2::real) powi e" by simp
  with assms(1) have "0 < \<bar>x\<bar>" by linarith
  then have "x \<noteq> 0" by simp
  then show ?thesis
    using assms(3) by (simp add: binary64_def ulp_def e)
qed

lemma fmul_30_largest: "fmul 30 (1 - 1 / 2 ^ 53) = 30 - 1 / 2 ^ 48"
proof -
  have "binary64 (30 * (1 - 1 / 2 ^ 53)) = of_int (30 * 2 ^ 48 - 1) * 2 powi (4 - 52)"
    by (rule binary64_eqI) (simp_all add: round_half_even_def)
  then show ?thesis
    by (simp add: fmul_def)
qed

lemma fadd_15_largest: "fadd (- 15) (30 - 1 / 2 ^ 48) = 15 - 1 / 2 ^ 48"
proof -
  have "binary64 (- 15 + (30 - 1 / 2 ^ 48)) = of_int (15 * 2 ^ 49 - 2) * 2 powi (3 - 52)"
    by (rule binary64_eqI) (simp_all add: round_half_even_def)
  then show ?thesis
    by (simp add: fadd_def)
qed

lemma fadd_15_zero: "fadd (- 15) 0 = - 15"
proof -
  have "binary64 (- 15 + 0) = of_int (- 15 * 2 ^ 49) * 2 powi (3 - 52)"
    by (rule binary64_eqI) (simp_all add: round_half_even_def)
  then show ?thesis
    by (simp add: fadd_def)
qed

lemma coordinate_binary64_range:
  assumes "0 \<le> u" and "u \<le> 1 - 1 / 2 ^ 53"
  shows "- 15 \<le> coordinate_binary64 u" and "coordinate_binary64 u \<le> 15 - 1 / 2 ^ 48"
    and "coordinate_binary64 u < 15"
proof -
  have "binary64 0 \<le> fmul 30 u"
    unfolding fmul_def using assms(1) by (intro binary64_mono) simp
  then have "fadd (- 15) 0 \<le> fadd (- 15) (fmul 30 u)"
    unfolding fadd_def by (intro binary64_mono) (simp add: binary64_zero)
  then show "- 15 \<le> coordinate_binary64 u"
    unfolding coordinate_binary64_def fadd_15_zero .
  have "fmul 30 u \<le> fmul 30 (1 - 1 / 2 ^ 53)"
    unfolding fmul_def using assms(2) by (intro binary64_mono) simp
  then have "fadd (- 15) (fmul 30 u) \<le> fadd (- 15) (30 - 1 / 2 ^ 48)"
    unfolding fadd_def fmul_30_largest by (intro binary64_mono) simp
  then show le: "coordinate_binary64 u \<le> 15 - 1 / 2 ^ 48"
    unfolding coordinate_binary64_def fadd_15_largest .
  have "(15::real) - 1 / 2 ^ 48 < 15" by simp
  with le show "coordinate_binary64 u < 15" by linarith
qed

lemma coordinate_binary64_zero: "coordinate_binary64 0 = - 15"
  by (simp add: coordinate_binary64_def fmul_def binary64_zero fadd_15_zero)

lemma binary64_below_one:
  assumes "binary64 u = u" and "u < 1"
  shows "u \<le> 1 - 1 / 2 ^ 53"
proof (cases "u < 1 / 2")
  case True
  have "(1::real) / 2 \<le> 1 - 1 / 2 ^ 53" by simp
  with True show ?thesis by linarith
next
  case False
  then have u: "0 < u" "u \<noteq> 0" "\<bar>u\<bar> = u" by simp_all
  have e: "expo u = - 1"
    using False assms(2) u(3) by (intro expo_eqI) simp_all
  define n where "n = round_half_even (u / ulp u)"
  have ulp: "ulp u = 1 / 2 ^ 53"
    by (simp add: ulp_def e)
  have "binary64 u = of_int n * ulp u"
    using u(2) by (simp add: binary64_def n_def)
  then have eq: "u = of_int n / 2 ^ 53"
    unfolding assms(1) by (simp add: ulp)
  with assms(2) have "of_int n < (2 ^ 53 :: real)"
    by (simp add: divide_less_eq)
  then have "n < 2 ^ 53"
    by (simp only: of_int_less_numeral_power_cancel_iff)
  then have "n + 1 \<le> 2 ^ 53"
    by (simp only: zless_iff_Suc_zadd add1_zle_eq)
  then have "(of_int (n + 1) :: real) \<le> 2 ^ 53"
    by (simp only: of_int_le_numeral_power_cancel_iff)
  then have "(of_int n :: real) \<le> 2 ^ 53 - 1"
    by (simp only: of_int_add of_int_1 le_diff_eq)
  then have "of_int n / 2 ^ 53 \<le> ((2 ^ 53 - 1) / 2 ^ 53 :: real)"
    by (intro divide_right_mono) simp_all
  also have "\<dots> = 1 - 1 / 2 ^ 53"
    by (simp add: diff_divide_distrib)
  finally show ?thesis
    using eq by simp
qed

lemma coordinate_binary64_bounds:
  "binary64 u = u \<Longrightarrow> 0 \<le> u \<Longrightarrow> u < 1 \<Longrightarrow>
     - 15 \<le> coordinate_binary64 u \<and> coordinate_binary64 u < 15"
  using binary64_below_one coordinate_binary64_range(1,3) by blast

lemma coordinate_binary64_largest:
  "binary64 (1 - 1 / 2 ^ 53) = 1 - 1 / 2 ^ 53 \<and>
   coordinate_binary64 (1 - 1 / 2 ^ 53) = 15 - 1 / 2 ^ 48"
proof -
  have "binary64 (1 - 1 / 2 ^ 53) = of_int (2 ^ 53 - 1) * 2 powi (- 1 - 52)"
    by (rule binary64_eqI) (simp_all add: round_half_even_def)
  then have "binary64 (1 - 1 / 2 ^ 53) = 1 - 1 / 2 ^ 53"
    by simp
  then show ?thesis
    unfolding coordinate_binary64_def fmul_30_largest fadd_15_largest by simp
qed

subsection \<open>Doubles and the product \<^verbatim>\<open>250*max_time\<close>\<close>

text \<open>
  Integers and dyadic fractions with a significand below \<open>2 ^ 53\<close> are doubles, and a
  double is a multiple of the ulp of its binade.
\<close>

lemma expo_scale:
  assumes "x \<noteq> 0"
  shows "expo (x * 2 powi j) = expo x + j"
proof (rule expo_eqI)
  have pos: "0 < (2::real) powi j" by simp
  have abs: "\<bar>x * 2 powi j\<bar> = \<bar>x\<bar> * 2 powi j"
    by (simp add: abs_mult)
  have "2 powi expo x * 2 powi j \<le> \<bar>x\<bar> * 2 powi j"
    using expo_bounds(1) [OF assms] pos by (simp only: mult_le_cancel_right_pos)
  then show "2 powi (expo x + j) \<le> \<bar>x * 2 powi j\<bar>"
    by (simp add: abs power_int_add)
  have "\<bar>x\<bar> * 2 powi j < 2 powi (expo x + 1) * 2 powi j"
    using expo_bounds(2) [OF assms] pos by (simp only: mult_less_cancel_right_pos)
  then show "\<bar>x * 2 powi j\<bar> < 2 powi (expo x + j + 1)"
    by (simp add: abs power_int_add mult.commute mult.left_commute)
qed

lemma binary64_scale: "binary64 (x * 2 powi j) = binary64 x * 2 powi j"
proof (cases "x = 0")
  case True
  then show ?thesis by (simp add: binary64_zero)
next
  case False
  have u: "ulp (x * 2 powi j) = ulp x * 2 powi j"
    by (simp add: ulp_def expo_scale [OF False] power_int_add power_int_diff)
  have "x * 2 powi j / (ulp x * 2 powi j) = x / ulp x"
    by simp
  then show ?thesis
    using False by (simp add: binary64_def u)
qed

lemma binary64_of_int:
  assumes "\<bar>k\<bar> < 2 ^ 53"
  shows "binary64 (of_int k) = of_int k"
proof (cases "k = 0")
  case True
  then show ?thesis by (simp add: binary64_zero)
next
  case False
  define e where "e = expo (of_int k)"
  have k: "(of_int k :: real) \<noteq> 0" using False by simp
  have lo: "2 powi e \<le> \<bar>of_int k :: real\<bar>" and hi: "\<bar>of_int k :: real\<bar> < 2 powi (e + 1)"
    using expo_bounds [OF k] by (simp_all add: e_def)
  have "e \<le> 52"
  proof (rule ccontr)
    assume "\<not> e \<le> 52"
    then have "(2::real) powi 53 \<le> 2 powi e"
      by (intro power_int_increasing) simp_all
    with lo have "(2 ^ 53 :: real) \<le> \<bar>of_int k\<bar>" by simp
    then have "(2 ^ 53 :: real) \<le> of_int \<bar>k\<bar>" by simp
    then have "2 ^ 53 \<le> \<bar>k\<bar>"
      by (simp only: numeral_power_le_of_int_cancel_iff)
    with assms show False by simp
  qed
  define m where "m = nat (52 - e)"
  have ulp: "ulp (of_int k) = 1 / 2 ^ m"
  proof -
    have "e - 52 = - int m"
      using \<open>e \<le> 52\<close> by (simp add: m_def)
    then have "ulp (of_int k) = 2 powi (- int m)"
      by (simp add: ulp_def e_def)
    then show ?thesis
      by (simp add: power_int_minus divide_inverse)
  qed
  have "of_int k / ulp (of_int k) = (of_int (k * 2 ^ m) :: real)"
    by (simp add: ulp)
  then have "round_half_even (of_int k / ulp (of_int k)) = k * 2 ^ m"
    by (simp only: round_half_even_of_int)
  then show ?thesis
    using k by (simp add: binary64_def ulp)
qed

lemma binary64_dyadic:
  "\<bar>k\<bar> < 2 ^ 53 \<Longrightarrow> binary64 (of_int k * 2 powi j) = of_int k * 2 powi j"
  by (simp add: binary64_scale binary64_of_int)

lemma binary64_fraction:
  assumes "\<bar>k\<bar> < 2 ^ 53"
  shows "binary64 (of_int k / 2 ^ n) = of_int k / 2 ^ n"
proof -
  have "(2::real) powi (- int n) = 1 / 2 ^ n"
    by (simp add: power_int_minus divide_inverse)
  then show ?thesis
    using binary64_dyadic [OF assms, of "- int n"] by simp
qed

lemma double_multiple:
  assumes "binary64 x = x"
  shows "\<exists>n. x = of_int n * ulp x"
proof (cases "x = 0")
  case True
  then have "x = of_int 0 * ulp x" by simp
  then show ?thesis by blast
next
  case False
  then have "binary64 x = of_int (round_half_even (x / ulp x)) * ulp x"
    by (simp add: binary64_def)
  then show ?thesis
    unfolding assms by blast
qed

text \<open>A double whose exact product with 250 is below 2 has a rounded product below 2.\<close>

lemma product_below_two:
  assumes "binary64 x = x" and "250 * x < 2"
  shows "fmul 250 x < 2"
proof (cases "x < 1 / 128")
  case True
  have "binary64 (250 * x) \<le> binary64 (of_int 125 / 2 ^ 6)"
    using True by (intro binary64_mono) simp
  also have "\<dots> = of_int 125 / 2 ^ 6"
    by (rule binary64_fraction) simp
  also have "\<dots> < 2" by simp
  finally show ?thesis by (simp add: fmul_def)
next
  case False
  then have x: "x \<noteq> 0" "\<bar>x\<bar> = x" by simp_all
  have e: "expo x = - 7"
    using False assms(2) x(2) by (intro expo_eqI) simp_all
  have ulp: "ulp x = 1 / 2 ^ 59"
    by (simp add: ulp_def e)
  obtain n where n: "x = of_int n * ulp x"
    using double_multiple [OF assms(1)] by blast
  then have eq: "x = of_int n / 2 ^ 59"
    by (simp add: ulp)
  have "250 * (of_int n :: real) < 2 ^ 60"
    using assms(2) by (simp add: eq)
  then have "(of_int (250 * n) :: real) < 2 ^ 60"
    by simp
  then have "250 * n < 2 ^ 60"
    by (simp only: of_int_less_numeral_power_cancel_iff)
  then have "250 * n < 1152921504606846976"
    by simp
  then have "n \<le> 4611686018427387"
    by linarith
  then have "250 * n \<le> 1152921504606846848"
    by linarith
  then have "250 * n \<le> 2 ^ 60 - 2 ^ 7"
    by simp
  then have "(of_int (250 * n) :: real) \<le> of_int (2 ^ 60 - 2 ^ 7)"
    by (simp only: of_int_le_iff)
  then have "250 * x \<le> of_int (2 ^ 53 - 1) / 2 ^ 52"
    by (simp add: eq)
  then have "binary64 (250 * x) \<le> binary64 (of_int (2 ^ 53 - 1) / 2 ^ 52)"
    by (rule binary64_mono)
  also have "\<dots> = of_int (2 ^ 53 - 1) / 2 ^ 52"
    by (rule binary64_fraction) simp
  also have "\<dots> < 2" by simp
  finally show ?thesis by (simp add: fmul_def)
qed

lemma product_at_least:
  assumes "\<bar>k\<bar> < 2 ^ 53" and "of_int k \<le> 250 * x"
  shows "of_int k \<le> fmul 250 x"
  using binary64_mono [OF assms(2)] by (simp add: fmul_def binary64_of_int [OF assms(1)])

lemma py_int_one: "1 \<le> x \<Longrightarrow> x < 2 \<Longrightarrow> py_int x = 1"
  unfolding py_int_def by (simp add: floor_eq_iff)

lemma one_sample_double:
  assumes "binary64 x = x" and "py_int (250 * x) = 1"
  shows "py_int (fmul 250 x) = 1"
proof -
  have pos: "0 \<le> 250 * x"
    using assms(2) by (cases "0 \<le> 250 * x") (auto simp: py_int_def ceiling_eq_iff)
  with assms(2) have "1 \<le> 250 * x" and "250 * x < 2"
    by (simp_all add: py_int_def floor_eq_iff)
  then have "1 \<le> fmul 250 x" and "fmul 250 x < 2"
    using product_at_least [of 1 x] product_below_two [OF assms(1)] by simp_all
  then show ?thesis
    by (rule py_int_one)
qed

lemma fmul_zero: "fmul 250 0 = 0"
  by (simp add: fmul_def binary64_zero)

section \<open>The time grid and the trajectories\<close>

lemma time_grid_Inr:
  assumes "time_grid max_time = Inr tv"
  shows "\<bar>fmul 250 max_time\<bar> < 2 ^ 1024"
    and "linspace 0 max_time (py_int (fmul 250 max_time)) = Inr tv"
    and "0 \<le> py_int (fmul 250 max_time)"
    and "int (length tv) = py_int (fmul 250 max_time)"
proof -
  show fin: "\<bar>fmul 250 max_time\<bar> < 2 ^ 1024"
    using assms by (cases "2 ^ 1024 \<le> \<bar>fmul 250 max_time\<bar>") (simp_all add: time_grid_def)
  then show lin: "linspace 0 max_time (py_int (fmul 250 max_time)) = Inr tv"
    using assms by (simp add: time_grid_def)
  show nonneg: "0 \<le> py_int (fmul 250 max_time)"
    using lin linspace_negative [of "py_int (fmul 250 max_time)" 0 max_time]
    by (cases "0 \<le> py_int (fmul 250 max_time)") simp_all
  show "int (length tv) = py_int (fmul 250 max_time)"
    using linspace_length [OF lin] nonneg by simp
qed

lemma time_grid_defined:
  assumes "\<bar>fmul 250 max_time\<bar> < 2 ^ 1024" and "0 \<le> py_int (fmul 250 max_time)"
  shows "\<exists>tv. time_grid max_time = Inr tv"
  using assms linspace_defined [OF assms(2), of 0 max_time] by (simp add: time_grid_def)

lemma time_grid_nth:
  assumes "time_grid max_time = Inr tv" and "2 \<le> length tv" and "i < length tv"
  shows "tv ! i = real i * (max_time / real (length tv - 1))"
proof -
  have n: "nat (py_int (fmul 250 max_time)) = length tv"
    using time_grid_Inr(4) [OF assms(1)] by simp
  have "tv ! i = 0 + real i * ((max_time - 0) / real (nat (py_int (fmul 250 max_time)) - 1))"
    using assms n by (intro linspace_nth [OF time_grid_Inr(2) [OF assms(1)]]) simp_all
  then show ?thesis
    by (simp add: n)
qed

subsection \<open>Evaluating and assembling a run\<close>

text \<open>The grid of a horizon whose rounded product is known.\<close>

lemma time_grid_eval:
  assumes "fmul 250 max_time = p" and "\<bar>p\<bar> < 2 ^ 1024" and "py_int p = n"
  shows "time_grid max_time = linspace 0 max_time n"
  using assms by (simp add: time_grid_def)

text \<open>A run from its steps, and the run without initial conditions.\<close>

lemma solve_lorenz_steps:
  assumes "initial_conditions lib g N = Inr (x0v, g')"
    and "time_grid max_time = Inr tv"
    and "trajectories lib sigma beta rho x0v tv = Inr x_tv"
    and "linspace 0 1 N = Inr ps"
    and "plot_all x_tv (map (jet lib) ps) N = Inr ls"
  shows "solve_lorenz lib g N angle max_time sigma beta rho =
           Inr (\<lparr>out_x0 = x0v, out_t = tv, out_x_t = x_tv, out_colors = map (jet lib) ps,
                 out_lines = ls, out_view = (30, angle)\<rparr>, g')"
  by (simp add: solve_lorenz_def assms)

lemma solve_lorenz_no_points:
  assumes "time_grid max_time = Inr tv"
  shows "solve_lorenz lib g 0 angle max_time sigma beta rho =
           Inr (\<lparr>out_x0 = [], out_t = tv, out_x_t = [], out_colors = [], out_lines = [],
                 out_view = (30, angle)\<rparr>, random_seed lib 1)"
  by (simp add: solve_lorenz_def initial_conditions_def random_N3_def assms trajectories_def
      linspace_def plot_all_def)

text \<open>
  C4 claims \<open>250 * max_time\<close> samples per trajectory for every horizon. At
  \<open>max_time = 3/256\<close>, a double, the product is \<open>375/128\<close> and the trajectory has two
  samples.
\<close>

theorem sample_count_counterexample:
  "solve_lorenz demo 0 1 0 (3 / 256) 10 (8 / 3) 28 =
     Inr (\<lparr>out_x0 = [[- 15, 45 / 8, - (45 / 4)]], out_t = [0, 3 / 256],
           out_x_t = [[[- 15, 45 / 8, - (45 / 4)],
                       [- (12885 / 1024), - (2745 / 2048), - (24345 / 2048)]]],
           out_colors = [(0, 0, 0, 1)],
           out_lines = [\<lparr>line_x = [- 15, - (12885 / 1024)], line_y = [45 / 8, - (2745 / 2048)],
                          line_z = [- (45 / 4), - (24345 / 2048)], line_color = (0, 0, 0, 1),
                          line_width = 2\<rparr>],
           out_view = (30, 0)\<rparr>, 2) \<and>
   real (length [[- 15, 45 / 8, - (45 / 4)],
                 [- (12885 / 1024), - (2745 / 2048), - (24345 / 2048 :: real)]])
     \<noteq> 250 * (3 / 256)"
proof -
  have ic: "initial_conditions demo 0 1 = Inr ([[- 15, 45 / 8, - (45 / 4)]], 2)"
    by code_simp
  have p: "fmul 250 (3 / 256) = 375 / 128"
    using binary64_fraction [of 375 7] by (simp add: fmul_def)
  have "time_grid (3 / 256) = linspace 0 (3 / 256) 2"
    using p by (rule time_grid_eval) (simp_all add: py_int_def)
  also have "\<dots> = Inr [0, 3 / 256]"
    by code_simp
  finally have grid: "time_grid (3 / 256) = Inr [0, 3 / 256]" .
  have trs: "trajectories demo 10 (8 / 3) 28 [[- 15, 45 / 8, - (45 / 4)]] [0, 3 / 256] =
      Inr [[[- 15, 45 / 8, - (45 / 4)], [- (12885 / 1024), - (2745 / 2048), - (24345 / 2048)]]]"
    by code_simp
  have ps: "linspace 0 1 1 = Inr [0]"
    by code_simp
  have plot: "plot_all [[[- 15, 45 / 8, - (45 / 4)],
                          [- (12885 / 1024), - (2745 / 2048), - (24345 / 2048)]]]
                (map (jet demo) [0]) 1 =
      Inr [\<lparr>line_x = [- 15, - (12885 / 1024)], line_y = [45 / 8, - (2745 / 2048)],
            line_z = [- (45 / 4), - (24345 / 2048)], line_color = (0, 0, 0, 1),
            line_width = 2\<rparr>]"
    by code_simp
  have colour: "jet demo 0 = (0, 0, 0, 1)"
    by (simp add: demo_def grey_def)
  show ?thesis
    using solve_lorenz_steps [OF ic grid trs ps plot, of 0] by (simp add: colour)
qed

text \<open>
  C4, amended. The time grid and every produced trajectory have \<open>int(250 * max_time)\<close>
  samples: the double product, truncated towards zero. This is \<open>250 * max_time\<close> itself
  whenever that product is an integer below \<open>2 ^ 53\<close>.
\<close>

theorem sample_count_truncated:
  "odeint_rows (odeint lib) \<Longrightarrow>
   solve_lorenz lib g N angle max_time sigma beta rho = Inr (out, g') \<Longrightarrow>
     int (length (out_t out)) = py_int (fmul 250 max_time) \<and>
     (\<forall>traj\<in>set (out_x_t out). int (length traj) = py_int (fmul 250 max_time)) \<and>
     (250 * max_time \<in> \<int> \<and> 250 * max_time < 2 ^ 53 \<longrightarrow>
        (\<forall>traj\<in>set (out_x_t out). real (length traj) = 250 * max_time))"
proof -
  assume rows: "odeint_rows (odeint lib)"
    and run: "solve_lorenz lib g N angle max_time sigma beta rho = Inr (out, g')"
  note grid = solve_lorenz_Inr(2) [OF run]
  note trs = solve_lorenz_Inr(3) [OF run]
  have len: "int (length (out_t out)) = py_int (fmul 250 max_time)"
    using grid by (rule time_grid_Inr(4))
  have each: "length traj = length (out_t out)" if "traj \<in> set (out_x_t out)" for traj
  proof -
    from that obtain i where i: "i < length (out_x_t out)" and traj: "traj = out_x_t out ! i"
      by (auto simp: in_set_conv_nth)
    have "i < length (out_x0 out)"
      using i trajectories_Inr(1) [OF trs] by simp
    then have "odeint lib (\<lambda>x_y_z t0. lorenz_deriv x_y_z t0 sigma beta rho) (out_x0 out ! i)
                 (out_t out) = Inr traj"
      using trajectories_Inr(2) [OF trs] traj by simp
    with rows show ?thesis
      unfolding odeint_rows_def by blast
  qed
  have "real (length traj) = 250 * max_time"
    if whole: "250 * max_time \<in> \<int>" and small: "250 * max_time < 2 ^ 53"
      and "traj \<in> set (out_x_t out)" for traj
  proof -
    from whole obtain k where k: "250 * max_time = of_int k"
      by (auto elim: Ints_cases)
    have "0 \<le> k"
    proof (rule ccontr)
      assume "\<not> 0 \<le> k"
      then have "250 * max_time \<le> of_int (- 1)"
        by (simp add: k)
      then have "binary64 (250 * max_time) \<le> binary64 (of_int (- 1))"
        by (rule binary64_mono)
      also have "\<dots> = of_int (- 1)"
        by (rule binary64_of_int) simp
      finally have "fmul 250 max_time \<le> - 1"
        by (simp add: fmul_def)
      then have "py_int (fmul 250 max_time) < 0"
        by (simp add: py_int_def ceiling_less_iff)
      with len show False by simp
    qed
    moreover have "k < 2 ^ 53"
      using small by (simp add: k)
    ultimately have "\<bar>k\<bar> < 2 ^ 53"
      by simp
    then have "fmul 250 max_time = of_int k"
      by (simp add: fmul_def k binary64_of_int)
    then have "int (length traj) = k"
      using each [OF that(3)] len by (simp add: py_int_of_int)
    then have "real (length traj) = of_int k"
      by (metis of_int_of_nat_eq)
    then show ?thesis
      by (simp add: k)
  qed
  with len each show ?thesis
    by simp
qed

text \<open>
  The double nearest to 0.036 shows the rounding at work: its exact product with 250 is
  just below 9, the double product is 9, and the grid has 9 points.
\<close>

lemma double_036: "binary64 (9 / 250) = 5188146770730811 / 2 ^ 57"
proof -
  have "binary64 (9 / 250) = of_int 5188146770730811 * 2 powi (- 5 - 52)"
    by (rule binary64_eqI) (simp_all add: round_half_even_def)
  then show ?thesis by simp
qed

lemma product_036:
  "fmul 250 (5188146770730811 / 2 ^ 57) = 9"
  "py_int (250 * (5188146770730811 / 2 ^ 57)) = 8"
proof -
  have "binary64 (250 * (5188146770730811 / 2 ^ 57)) = of_int (9 * 2 ^ 49) * 2 powi (3 - 52)"
    by (rule binary64_eqI) (simp_all add: round_half_even_def)
  then show "fmul 250 (5188146770730811 / 2 ^ 57) = 9"
    by (simp add: fmul_def)
  show "py_int (250 * (5188146770730811 / 2 ^ 57)) = 8"
    by (simp add: py_int_def)
qed

theorem sample_count_truncated_witness:
  "odeint_rows (odeint demo) \<and>
   solve_lorenz demo 0 1 0 (1 / 125) 10 (8 / 3) 28 =
     Inr (\<lparr>out_x0 = [[- 15, 45 / 8, - (45 / 4)]], out_t = [0, 1 / 125],
           out_x_t = [[[- 15, 45 / 8, - (45 / 4)], [- (267 / 20), 87 / 100, - (2337 / 200)]]],
           out_colors = [(0, 0, 0, 1)],
           out_lines = [\<lparr>line_x = [- 15, - (267 / 20)], line_y = [45 / 8, 87 / 100],
                          line_z = [- (45 / 4), - (2337 / 200)], line_color = (0, 0, 0, 1),
                          line_width = 2\<rparr>],
           out_view = (30, 0)\<rparr>, 2) \<and>
   (250 * (1 / 125) :: real) \<in> \<int> \<and> (250 * (1 / 125) :: real) < 2 ^ 53 \<and>
   int (length [0, 1 / 125 :: real]) = py_int (fmul 250 (1 / 125)) \<and>
   real (length [[- 15, 45 / 8, - (45 / 4)], [- (267 / 20), 87 / 100, - (2337 / 200 :: real)]])
     = 250 * (1 / 125) \<and>
   py_int (fmul 250 (5188146770730811 / 2 ^ 57)) = 9 \<and>
   (\<exists>tv. solve_lorenz demo 0 0 0 (5188146770730811 / 2 ^ 57) 10 (8 / 3) 28 =
           Inr (\<lparr>out_x0 = [], out_t = tv, out_x_t = [], out_colors = [], out_lines = [],
                 out_view = (30, 0)\<rparr>, random_seed demo 1) \<and>
         length tv = 9)"
proof -
  have rows: "odeint_rows (odeint demo)"
    by (simp add: demo_def odeint_rows_euler)
  have ic: "initial_conditions demo 0 1 = Inr ([[- 15, 45 / 8, - (45 / 4)]], 2)"
    by code_simp
  have p: "fmul 250 (1 / 125) = 2"
    using binary64_of_int [of 2] by (simp add: fmul_def)
  have "time_grid (1 / 125) = linspace 0 (1 / 125) 2"
    using p by (rule time_grid_eval) (simp_all add: py_int_def)
  also have "\<dots> = Inr [0, 1 / 125]"
    by code_simp
  finally have grid: "time_grid (1 / 125) = Inr [0, 1 / 125]" .
  have trs: "trajectories demo 10 (8 / 3) 28 [[- 15, 45 / 8, - (45 / 4)]] [0, 1 / 125] =
      Inr [[[- 15, 45 / 8, - (45 / 4)], [- (267 / 20), 87 / 100, - (2337 / 200)]]]"
    by code_simp
  have ps: "linspace 0 1 1 = Inr [0]"
    by code_simp
  have plot: "plot_all [[[- 15, 45 / 8, - (45 / 4)], [- (267 / 20), 87 / 100, - (2337 / 200)]]]
                (map (jet demo) [0]) 1 =
      Inr [\<lparr>line_x = [- 15, - (267 / 20)], line_y = [45 / 8, 87 / 100],
            line_z = [- (45 / 4), - (2337 / 200)], line_color = (0, 0, 0, 1),
            line_width = 2\<rparr>]"
    by code_simp
  have colour: "jet demo 0 = (0, 0, 0, 1)"
    by (simp add: demo_def grey_def)
  have run: "solve_lorenz demo 0 1 0 (1 / 125) 10 (8 / 3) 28 =
     Inr (\<lparr>out_x0 = [[- 15, 45 / 8, - (45 / 4)]], out_t = [0, 1 / 125],
           out_x_t = [[[- 15, 45 / 8, - (45 / 4)], [- (267 / 20), 87 / 100, - (2337 / 200)]]],
           out_colors = [(0, 0, 0, 1)],
           out_lines = [\<lparr>line_x = [- 15, - (267 / 20)], line_y = [45 / 8, 87 / 100],
                          line_z = [- (45 / 4), - (2337 / 200)], line_color = (0, 0, 0, 1),
                          line_width = 2\<rparr>],
           out_view = (30, 0)\<rparr>, 2)"
    using solve_lorenz_steps [OF ic grid trs ps plot, of 0] by (simp add: colour)
  have whole: "(250 * (1 / 125) :: real) \<in> \<int>" "(250 * (1 / 125) :: real) < 2 ^ 53"
    by simp_all
  note first = sample_count_truncated [OF rows run]
  have a: "int (length [0, 1 / 125 :: real]) = py_int (fmul 250 (1 / 125))"
    using first by simp
  have b: "real (length [[- 15, 45 / 8, - (45 / 4)], [- (267 / 20), 87 / 100, - (2337 / 200 :: real)]])
     = 250 * (1 / 125)"
    by simp
  have nine: "py_int (fmul 250 (5188146770730811 / 2 ^ 57)) = 9"
    unfolding product_036(1) by (simp add: py_int_def)
  have finite: "\<bar>fmul 250 (5188146770730811 / 2 ^ 57)\<bar> < 2 ^ 1024"
    unfolding product_036(1) by simp
  have "0 \<le> py_int (fmul 250 (5188146770730811 / 2 ^ 57))"
    unfolding nine by simp
  with finite obtain tv where tv: "time_grid (5188146770730811 / 2 ^ 57) = Inr tv"
    using time_grid_defined by blast
  note run9 = solve_lorenz_no_points [OF tv, of demo 0 0 10 "8 / 3" 28]
  have "int (length tv) = py_int (fmul 250 (5188146770730811 / 2 ^ 57))"
    using sample_count_truncated [OF rows run9] by simp
  then have "length tv = 9"
    using nine by simp
  with run9 have c: "\<exists>tv. solve_lorenz demo 0 0 0 (5188146770730811 / 2 ^ 57) 10 (8 / 3) 28 =
           Inr (\<lparr>out_x0 = [], out_t = tv, out_x_t = [], out_colors = [], out_lines = [],
                 out_view = (30, 0)\<rparr>, random_seed demo 1) \<and>
         length tv = 9"
    by blast
  from rows run whole a b nine c show ?thesis
    by blast
qed

text \<open>
  C5 claims that with \<open>max_time = 0\<close> each trajectory is the single point of its
  initial condition. The grid of that horizon is empty, and so is the trajectory.
\<close>

theorem zero_horizon_counterexample:
  "solve_lorenz demo 0 1 0 0 10 (8 / 3) 28 =
     Inr (\<lparr>out_x0 = [[- 15, 45 / 8, - (45 / 4)]], out_t = [], out_x_t = [[]],
           out_colors = [(0, 0, 0, 1)],
           out_lines = [\<lparr>line_x = [], line_y = [], line_z = [], line_color = (0, 0, 0, 1),
                          line_width = 2\<rparr>],
           out_view = (30, 0)\<rparr>, 2) \<and>
   [[]] \<noteq> [[[- 15, 45 / 8, - (45 / 4) :: real]]]"
proof -
  have ic: "initial_conditions demo 0 1 = Inr ([[- 15, 45 / 8, - (45 / 4)]], 2)"
    by code_simp
  have "time_grid 0 = linspace 0 0 0"
    using fmul_zero by (rule time_grid_eval) (simp_all add: py_int_def)
  also have "\<dots> = Inr []"
    by code_simp
  finally have grid: "time_grid 0 = Inr []" .
  have trs: "trajectories demo 10 (8 / 3) 28 [[- 15, 45 / 8, - (45 / 4)]] [] = Inr [[]]"
    by code_simp
  have ps: "linspace 0 1 1 = Inr [0]"
    by code_simp
  have plot: "plot_all [[]] (map (jet demo) [0]) 1 =
      Inr [\<lparr>line_x = [], line_y = [], line_z = [], line_color = (0, 0, 0, 1),
            line_width = 2\<rparr>]"
    by code_simp
  have colour: "jet demo 0 = (0, 0, 0, 1)"
    by (simp add: demo_def grey_def)
  show ?thesis
    using solve_lorenz_steps [OF ic grid trs ps plot, of 0] by (simp add: colour)
qed

text \<open>
  C5, amended. There is one trajectory per initial condition. With \<open>max_time = 0\<close> the
  time grid is empty and every produced trajectory has no sample. A trajectory is the
  single point of its initial condition when \<open>int(250 * max_time) = 1\<close>, that is for
  \<open>1/250 \<le> max_time < 2/250\<close>: for a double \<open>max_time\<close> the truncation of the double
  product is 1 whenever that of the exact product is.
\<close>

theorem zero_horizon_no_samples:
  "odeint_rows (odeint lib) \<Longrightarrow> odeint_initial (odeint lib) \<Longrightarrow>
   solve_lorenz lib g N angle max_time sigma beta rho = Inr (out, g') \<Longrightarrow>
     length (out_x_t out) = length (out_x0 out) \<and>
     (max_time = 0 \<longrightarrow> out_t out = [] \<and> (\<forall>traj\<in>set (out_x_t out). traj = [])) \<and>
     (py_int (fmul 250 max_time) = 1 \<longrightarrow>
        out_t out = [0] \<and> out_x_t out = map (\<lambda>x0i. [x0i]) (out_x0 out)) \<and>
     (binary64 max_time = max_time \<and> py_int (250 * max_time) = 1 \<longrightarrow>
        out_t out = [0] \<and> out_x_t out = map (\<lambda>x0i. [x0i]) (out_x0 out))"
proof -
  assume rows: "odeint_rows (odeint lib)" and init: "odeint_initial (odeint lib)"
    and run: "solve_lorenz lib g N angle max_time sigma beta rho = Inr (out, g')"
  note grid = solve_lorenz_Inr(2) [OF run]
  note trs = solve_lorenz_Inr(3) [OF run]
  note len = trajectories_Inr(1) [OF trs]
  have solved: "odeint lib (\<lambda>x_y_z t0. lorenz_deriv x_y_z t0 sigma beta rho) (out_x0 out ! i)
                  (out_t out) = Inr (out_x_t out ! i)"
    if "i < length (out_x0 out)" for i
    using trajectories_Inr(2) [OF trs that] .
  have zero: "out_t out = [] \<and> (\<forall>traj\<in>set (out_x_t out). traj = [])" if "max_time = 0"
  proof
    show empty: "out_t out = []"
      using time_grid_Inr(4) [OF grid] that by (simp add: fmul_zero py_int_def)
    show "\<forall>traj\<in>set (out_x_t out). traj = []"
    proof
      fix traj assume "traj \<in> set (out_x_t out)"
      then obtain i where i: "i < length (out_x0 out)" and traj: "traj = out_x_t out ! i"
        using len by (auto simp: in_set_conv_nth)
      have "length traj = length (out_t out)"
        using rows solved [OF i] traj unfolding odeint_rows_def by blast
      then show "traj = []"
        using empty by simp
    qed
  qed
  have one: "out_t out = [0] \<and> out_x_t out = map (\<lambda>x0i. [x0i]) (out_x0 out)"
    if "py_int (fmul 250 max_time) = 1"
  proof
    show single: "out_t out = [0]"
      using time_grid_Inr(2) [OF grid] that by (simp add: linspace_def)
    show "out_x_t out = map (\<lambda>x0i. [x0i]) (out_x0 out)"
    proof (rule nth_equalityI)
      show "length (out_x_t out) = length (map (\<lambda>x0i. [x0i]) (out_x0 out))"
        using len by simp
    next
      fix i assume "i < length (out_x_t out)"
      then have i: "i < length (out_x0 out)"
        using len by simp
      have "length (out_x_t out ! i) = 1"
        using rows solved [OF i] single unfolding odeint_rows_def by fastforce
      moreover have "out_x_t out ! i ! 0 = out_x0 out ! i"
        using init solved [OF i] single unfolding odeint_initial_def by fastforce
      ultimately have "out_x_t out ! i = [out_x0 out ! i]"
        by (cases "out_x_t out ! i") auto
      then show "out_x_t out ! i = map (\<lambda>x0i. [x0i]) (out_x0 out) ! i"
        using i by simp
    qed
  qed
  have double: "out_t out = [0] \<and> out_x_t out = map (\<lambda>x0i. [x0i]) (out_x0 out)"
    if "binary64 max_time = max_time" and "py_int (250 * max_time) = 1"
    using one [OF one_sample_double [OF that]] .
  from len zero one double show ?thesis
    by blast
qed

theorem zero_horizon_no_samples_witness:
  "odeint_rows (odeint demo) \<and> odeint_initial (odeint demo) \<and>
   solve_lorenz demo 0 1 0 0 10 (8 / 3) 28 =
     Inr (\<lparr>out_x0 = [[- 15, 45 / 8, - (45 / 4)]], out_t = [], out_x_t = [[]],
           out_colors = [(0, 0, 0, 1)],
           out_lines = [\<lparr>line_x = [], line_y = [], line_z = [], line_color = (0, 0, 0, 1),
                          line_width = 2\<rparr>],
           out_view = (30, 0)\<rparr>, 2) \<and>
   list_all (\<lambda>traj. traj = []) [[] :: real list list] \<and>
   py_int (fmul 250 (1 / 250)) = 1 \<and>
   solve_lorenz demo 0 2 0 (1 / 250) 10 (8 / 3) 28 =
     Inr (\<lparr>out_x0 = [[- 15, 45 / 8, - (45 / 4)], [- (45 / 8), - (15 / 2), 105 / 8]],
           out_t = [0],
           out_x_t = [[[- 15, 45 / 8, - (45 / 4)]], [[- (45 / 8), - (15 / 2), 105 / 8]]],
           out_colors = [(0, 0, 0, 1), (1, 1, 1, 1)],
           out_lines = [\<lparr>line_x = [- 15], line_y = [45 / 8], line_z = [- (45 / 4)],
                          line_color = (0, 0, 0, 1), line_width = 2\<rparr>,
                        \<lparr>line_x = [- (45 / 8)], line_y = [- (15 / 2)], line_z = [105 / 8],
                          line_color = (1, 1, 1, 1), line_width = 2\<rparr>],
           out_view = (30, 0)\<rparr>, 15) \<and>
   [[[- 15, 45 / 8, - (45 / 4)]], [[- (45 / 8), - (15 / 2), 105 / 8]]]
     = map (\<lambda>x0i. [x0i]) [[- 15, 45 / 8, - (45 / 4)], [- (45 / 8), - (15 / 2), 105 / 8 :: real]] \<and>
   binary64 (3 / 512) = 3 / 512 \<and> py_int (250 * (3 / 512)) = 1 \<and>
   solve_lorenz demo 0 2 0 (3 / 512) 10 (8 / 3) 28 =
     Inr (\<lparr>out_x0 = [[- 15, 45 / 8, - (45 / 4)], [- (45 / 8), - (15 / 2), 105 / 8]],
           out_t = [0],
           out_x_t = [[[- 15, 45 / 8, - (45 / 4)]], [[- (45 / 8), - (15 / 2), 105 / 8]]],
           out_colors = [(0, 0, 0, 1), (1, 1, 1, 1)],
           out_lines = [\<lparr>line_x = [- 15], line_y = [45 / 8], line_z = [- (45 / 4)],
                          line_color = (0, 0, 0, 1), line_width = 2\<rparr>,
                        \<lparr>line_x = [- (45 / 8)], line_y = [- (15 / 2)], line_z = [105 / 8],
                          line_color = (1, 1, 1, 1), line_width = 2\<rparr>],
           out_view = (30, 0)\<rparr>, 15)"
proof -
  have rows: "odeint_rows (odeint demo)"
    by (simp add: demo_def odeint_rows_euler)
  have init: "odeint_initial (odeint demo)"
    by (simp add: demo_def odeint_initial_euler)
  have black: "jet demo 0 = (0, 0, 0, 1)" and white: "jet demo 1 = (1, 1, 1, 1)"
    by (simp_all add: demo_def grey_def)
  have ic1: "initial_conditions demo 0 1 = Inr ([[- 15, 45 / 8, - (45 / 4)]], 2)"
    by code_simp
  have "time_grid 0 = linspace 0 0 0"
    using fmul_zero by (rule time_grid_eval) (simp_all add: py_int_def)
  also have "\<dots> = Inr []"
    by code_simp
  finally have grid0: "time_grid 0 = Inr []" .
  have trs0: "trajectories demo 10 (8 / 3) 28 [[- 15, 45 / 8, - (45 / 4)]] [] = Inr [[]]"
    by code_simp
  have ps1: "linspace 0 1 1 = Inr [0]"
    by code_simp
  have plot0: "plot_all [[]] (map (jet demo) [0]) 1 =
      Inr [\<lparr>line_x = [], line_y = [], line_z = [], line_color = (0, 0, 0, 1),
            line_width = 2\<rparr>]"
    by code_simp
  have run0: "solve_lorenz demo 0 1 0 0 10 (8 / 3) 28 =
     Inr (\<lparr>out_x0 = [[- 15, 45 / 8, - (45 / 4)]], out_t = [], out_x_t = [[]],
           out_colors = [(0, 0, 0, 1)],
           out_lines = [\<lparr>line_x = [], line_y = [], line_z = [], line_color = (0, 0, 0, 1),
                          line_width = 2\<rparr>],
           out_view = (30, 0)\<rparr>, 2)"
    using solve_lorenz_steps [OF ic1 grid0 trs0 ps1 plot0, of 0] by (simp add: black)
  have ic2: "initial_conditions demo 0 2 =
      Inr ([[- 15, 45 / 8, - (45 / 4)], [- (45 / 8), - (15 / 2), 105 / 8]], 15)"
    by code_simp
  have single: "linspace 0 m 1 = Inr [0]" for m
    by (simp add: linspace_def)
  have p1: "fmul 250 (1 / 250) = 1"
    using binary64_of_int [of 1] by (simp add: fmul_def)
  have one1: "py_int (fmul 250 (1 / 250)) = 1"
    unfolding p1 by (simp add: py_int_def)
  have "time_grid (1 / 250) = linspace 0 (1 / 250) 1"
    using p1 by (rule time_grid_eval) (simp_all add: py_int_def)
  then have grid1: "time_grid (1 / 250) = Inr [0]"
    by (simp only: single)
  have p2: "fmul 250 (3 / 512) = 375 / 256"
    using binary64_fraction [of 375 8] by (simp add: fmul_def)
  have "time_grid (3 / 512) = linspace 0 (3 / 512) 1"
    using p2 by (rule time_grid_eval) (simp_all add: py_int_def)
  then have grid2: "time_grid (3 / 512) = Inr [0]"
    by (simp only: single)
  have double: "binary64 (3 / 512) = 3 / 512"
    using binary64_fraction [of 3 9] by simp
  have one2: "py_int (250 * (3 / 512)) = 1"
    by (simp add: py_int_def)
  have trs2: "trajectories demo 10 (8 / 3) 28
                [[- 15, 45 / 8, - (45 / 4)], [- (45 / 8), - (15 / 2), 105 / 8]] [0] =
      Inr [[[- 15, 45 / 8, - (45 / 4)]], [[- (45 / 8), - (15 / 2), 105 / 8]]]"
    by code_simp
  have ps2: "linspace 0 1 2 = Inr [0, 1]"
    by code_simp
  have plot2: "plot_all [[[- 15, 45 / 8, - (45 / 4)]], [[- (45 / 8), - (15 / 2), 105 / 8]]]
                 (map (jet demo) [0, 1]) 2 =
      Inr [\<lparr>line_x = [- 15], line_y = [45 / 8], line_z = [- (45 / 4)],
            line_color = (0, 0, 0, 1), line_width = 2\<rparr>,
           \<lparr>line_x = [- (45 / 8)], line_y = [- (15 / 2)], line_z = [105 / 8],
            line_color = (1, 1, 1, 1), line_width = 2\<rparr>]"
    by code_simp
  have run1: "solve_lorenz demo 0 2 0 (1 / 250) 10 (8 / 3) 28 =
     Inr (\<lparr>out_x0 = [[- 15, 45 / 8, - (45 / 4)], [- (45 / 8), - (15 / 2), 105 / 8]],
           out_t = [0],
           out_x_t = [[[- 15, 45 / 8, - (45 / 4)]], [[- (45 / 8), - (15 / 2), 105 / 8]]],
           out_colors = [(0, 0, 0, 1), (1, 1, 1, 1)],
           out_lines = [\<lparr>line_x = [- 15], line_y = [45 / 8], line_z = [- (45 / 4)],
                          line_color = (0, 0, 0, 1), line_width = 2\<rparr>,
                        \<lparr>line_x = [- (45 / 8)], line_y = [- (15 / 2)], line_z = [105 / 8],
                          line_color = (1, 1, 1, 1), line_width = 2\<rparr>],
           out_view = (30, 0)\<rparr>, 15)"
    using solve_lorenz_steps [OF ic2 grid1 trs2 ps2 plot2, of 0] by (simp add: black white)
  have run2: "solve_lorenz demo 0 2 0 (3 / 512) 10 (8 / 3) 28 =
     Inr (\<lparr>out_x0 = [[- 15, 45 / 8, - (45 / 4)], [- (45 / 8), - (15 / 2), 105 / 8]],
           out_t = [0],
           out_x_t = [[[- 15, 45 / 8, - (45 / 4)]], [[- (45 / 8), - (15 / 2), 105 / 8]]],
           out_colors = [(0, 0, 0, 1), (1, 1, 1, 1)],
           out_lines = [\<lparr>line_x = [- 15], line_y = [45 / 8], line_z = [- (45 / 4)],
                          line_color = (0, 0, 0, 1), line_width = 2\<rparr>,
                        \<lparr>line_x = [- (45 / 8)], line_y = [- (15 / 2)], line_z = [105 / 8],
                          line_color = (1, 1, 1, 1), line_width = 2\<rparr>],
           out_view = (30, 0)\<rparr>, 15)"
    using solve_lorenz_steps [OF ic2 grid2 trs2 ps2 plot2, of 0] by (simp add: black white)
  note t0 = zero_horizon_no_samples [OF rows init run0]
  note t1 = zero_horizon_no_samples [OF rows init run1]
  note t2 = zero_horizon_no_samples [OF rows init run2]
  have a: "list_all (\<lambda>traj. traj = []) [[] :: real list list]"
    by simp
  have b: "[[[- 15, 45 / 8, - (45 / 4)]], [[- (45 / 8), - (15 / 2), 105 / 8]]]
     = map (\<lambda>x0i. [x0i]) [[- 15, 45 / 8, - (45 / 4)], [- (45 / 8), - (15 / 2), 105 / 8 :: real]]"
    using t1 [THEN conjunct2, THEN conjunct2, THEN conjunct1] one1 by simp
  from rows init run0 a one1 run1 b double one2 run2 t0 t2 show ?thesis
    by blast
qed

text \<open>
  C6. Two runs with the same parameters give the same outcome, trajectories included,
  whatever state the global generator is in when each run starts: the run reseeds it.
\<close>

theorem solve_lorenz_reseeded:
  "solve_lorenz lib g1 N angle max_time sigma beta rho
     = solve_lorenz lib g2 N angle max_time sigma beta rho"
  by (simp add: solve_lorenz_def initial_conditions_def)

theorem solve_lorenz_reseeded_witness:
  "solve_lorenz demo 3 2 0 (1 / 125) 10 (8 / 3) 28
     = solve_lorenz demo 11 2 0 (1 / 125) 10 (8 / 3) 28"
  by (rule solve_lorenz_reseeded)

text \<open>
  C7 claims that the grid runs in even steps from 0 to the horizon. At
  \<open>max_time = 3/512\<close>, a double, the grid is the single point 0 and does not reach the
  horizon.
\<close>

theorem time_grid_counterexample:
  "time_grid (3 / 512) = Inr [0] \<and> last [0 :: real] \<noteq> 3 / 512"
proof -
  have p: "fmul 250 (3 / 512) = 375 / 256"
    using binary64_fraction [of 375 8] by (simp add: fmul_def)
  have "time_grid (3 / 512) = linspace 0 (3 / 512) 1"
    using p by (rule time_grid_eval) (simp_all add: py_int_def)
  also have "\<dots> = Inr [0]"
    by code_simp
  finally show ?thesis by simp
qed

text \<open>
  C7, amended. Every trajectory is the solver's output on one and the same grid
  \<open>out_t\<close>. When \<open>int(250 * max_time)\<close> is at least 2, which for a double \<open>max_time\<close>
  means \<open>max_time \<ge> 2/250\<close>, that grid has \<open>int(250 * max_time)\<close> points, starts at 0,
  ends at \<open>max_time\<close>, and its \<open>i\<close>-th point is \<open>i\<close> times the common step
  \<open>max_time / (length - 1)\<close>.
\<close>

theorem shared_time_grid:
  "solve_lorenz lib g N angle max_time sigma beta rho = Inr (out, g') \<Longrightarrow>
     length (out_x_t out) = length (out_x0 out) \<and>
     (\<forall>i<length (out_x0 out).
         odeint lib (\<lambda>x_y_z t0. lorenz_deriv x_y_z t0 sigma beta rho) (out_x0 out ! i) (out_t out)
           = Inr (out_x_t out ! i)) \<and>
     (2 \<le> py_int (fmul 250 max_time) \<longrightarrow>
        int (length (out_t out)) = py_int (fmul 250 max_time) \<and>
        hd (out_t out) = 0 \<and> last (out_t out) = max_time \<and>
        (\<forall>i<length (out_t out).
            out_t out ! i = real i * (max_time / real (length (out_t out) - 1))) \<and>
        (\<forall>i. Suc i < length (out_t out) \<longrightarrow>
            out_t out ! Suc i - out_t out ! i = max_time / real (length (out_t out) - 1))) \<and>
     (2 / 250 \<le> max_time \<longrightarrow> 2 \<le> py_int (fmul 250 max_time)) \<and>
     (binary64 max_time = max_time \<and> 2 \<le> py_int (fmul 250 max_time) \<longrightarrow>
        2 / 250 \<le> max_time)"
proof -
  assume run: "solve_lorenz lib g N angle max_time sigma beta rho = Inr (out, g')"
  note grid = solve_lorenz_Inr(2) [OF run]
  note trs = solve_lorenz_Inr(3) [OF run]
  define tv where "tv = out_t out"
  define h where "h = max_time / real (length tv - 1)"
  have len: "int (length tv) = py_int (fmul 250 max_time)"
    using time_grid_Inr(4) [OF grid] by (simp add: tv_def)
  have spaced: "int (length tv) = py_int (fmul 250 max_time) \<and>
        hd tv = 0 \<and> last tv = max_time \<and>
        (\<forall>i<length tv. tv ! i = real i * h) \<and>
        (\<forall>i. Suc i < length tv \<longrightarrow> tv ! Suc i - tv ! i = h)"
    if two: "2 \<le> py_int (fmul 250 max_time)"
  proof -
    have long: "2 \<le> length tv"
      using len two by linarith
    have nth: "tv ! i = real i * h" if "i < length tv" for i
      using time_grid_nth [OF grid] long that by (simp add: tv_def h_def)
    have first: "hd tv = 0"
      using nth [of 0] long by (cases tv) auto
    have "last tv = tv ! (length tv - 1)"
      using long by (intro last_conv_nth) auto
    also have "\<dots> = real (length tv - 1) * h"
      using long by (intro nth) simp
    also have "\<dots> = max_time"
      using long by (simp add: h_def)
    finally have final: "last tv = max_time" .
    have step: "tv ! Suc i - tv ! i = h" if "Suc i < length tv" for i
      using nth [of i] nth [of "Suc i"] that by (simp add: algebra_simps)
    from len first final nth step show ?thesis
      by simp
  qed
  have enough: "2 \<le> py_int (fmul 250 max_time)" if "2 / 250 \<le> max_time"
  proof -
    have "of_int 2 \<le> 250 * max_time"
      using that by simp
    then have "of_int 2 \<le> fmul 250 max_time"
      by (intro product_at_least) simp_all
    then show ?thesis
      by (simp add: py_int_def le_floor_iff)
  qed
  have late: "2 / 250 \<le> max_time"
    if double: "binary64 max_time = max_time" and two: "2 \<le> py_int (fmul 250 max_time)"
  proof (rule ccontr)
    assume "\<not> 2 / 250 \<le> max_time"
    then have "250 * max_time < 2"
      by simp
    then have "fmul 250 max_time < 2"
      using double by (intro product_below_two)
    then have "py_int (fmul 250 max_time) < 2"
      by (simp add: py_int_def floor_less_iff ceiling_less_iff)
    with two show False by simp
  qed
  show ?thesis
    using trajectories_Inr [OF trs] spaced enough late
    unfolding tv_def h_def by blast
qed

theorem shared_time_grid_witness:
  "2 \<le> py_int (fmul 250 (1 / 64)) \<and> (2 / 250 :: real) \<le> 1 / 64 \<and>
   binary64 (1 / 64) = 1 / 64 \<and>
   solve_lorenz demo 0 1 0 (1 / 64) 10 (8 / 3) 28 =
     Inr (\<lparr>out_x0 = [[- 15, 45 / 8, - (45 / 4)]], out_t = [0, 1 / 128, 1 / 64],
           out_x_t = [[[- 15, 45 / 8, - (45 / 4)],
                       [- (6855 / 512), 1005 / 1024, - (11955 / 1024)],
                       [- (803865 / 65536), - (213148965 / 67108864),
                        - (774049595 / 67108864)]]],
           out_colors = [(0, 0, 0, 1)],
           out_lines = [\<lparr>line_x = [- 15, - (6855 / 512), - (803865 / 65536)],
                          line_y = [45 / 8, 1005 / 1024, - (213148965 / 67108864)],
                          line_z = [- (45 / 4), - (11955 / 1024), - (774049595 / 67108864)],
                          line_color = (0, 0, 0, 1), line_width = 2\<rparr>],
           out_view = (30, 0)\<rparr>, 2) \<and>
   odeint demo (\<lambda>x_y_z t0. lorenz_deriv x_y_z t0 10 (8 / 3) 28) [- 15, 45 / 8, - (45 / 4)]
       [0, 1 / 128, 1 / 64] =
     Inr [[- 15, 45 / 8, - (45 / 4)],
          [- (6855 / 512), 1005 / 1024, - (11955 / 1024)],
          [- (803865 / 65536), - (213148965 / 67108864), - (774049595 / 67108864)]] \<and>
   int (length [0, 1 / 128, 1 / 64 :: real]) = py_int (fmul 250 (1 / 64)) \<and>
   hd [0, 1 / 128, 1 / 64 :: real] = 0 \<and> last [0, 1 / 128, 1 / 64 :: real] = 1 / 64 \<and>
   [0, 1 / 128, 1 / 64 :: real] ! 1 - [0, 1 / 128, 1 / 64] ! 0 = 1 / 64 / 2 \<and>
   [0, 1 / 128, 1 / 64 :: real] ! 2 - [0, 1 / 128, 1 / 64] ! 1 = 1 / 64 / 2"
proof -
  have p: "fmul 250 (1 / 64) = 125 / 32"
    using binary64_fraction [of 125 5] by (simp add: fmul_def)
  have three: "py_int (fmul 250 (1 / 64)) = 3"
    unfolding p by (simp add: py_int_def)
  have two: "2 \<le> py_int (fmul 250 (1 / 64))"
    unfolding three by simp
  have late: "(2 / 250 :: real) \<le> 1 / 64"
    by simp
  have double: "binary64 (1 / 64) = 1 / 64"
    using binary64_fraction [of 1 6] by simp
  have ic: "initial_conditions demo 0 1 = Inr ([[- 15, 45 / 8, - (45 / 4)]], 2)"
    by code_simp
  have "time_grid (1 / 64) = linspace 0 (1 / 64) 3"
    using p by (rule time_grid_eval) (simp_all add: py_int_def)
  also have "\<dots> = Inr [0, 1 / 128, 1 / 64]"
    by code_simp
  finally have grid: "time_grid (1 / 64) = Inr [0, 1 / 128, 1 / 64]" .
  have trs: "trajectories demo 10 (8 / 3) 28 [[- 15, 45 / 8, - (45 / 4)]] [0, 1 / 128, 1 / 64] =
      Inr [[[- 15, 45 / 8, - (45 / 4)],
            [- (6855 / 512), 1005 / 1024, - (11955 / 1024)],
            [- (803865 / 65536), - (213148965 / 67108864), - (774049595 / 67108864)]]]"
    by code_simp
  have ps: "linspace 0 1 1 = Inr [0]"
    by code_simp
  have plot: "plot_all [[[- 15, 45 / 8, - (45 / 4)],
                          [- (6855 / 512), 1005 / 1024, - (11955 / 1024)],
                          [- (803865 / 65536), - (213148965 / 67108864),
                           - (774049595 / 67108864)]]]
                (map (jet demo) [0]) 1 =
      Inr [\<lparr>line_x = [- 15, - (6855 / 512), - (803865 / 65536)],
            line_y = [45 / 8, 1005 / 1024, - (213148965 / 67108864)],
            line_z = [- (45 / 4), - (11955 / 1024), - (774049595 / 67108864)],
            line_color = (0, 0, 0, 1), line_width = 2\<rparr>]"
    by code_simp
  have colour: "jet demo 0 = (0, 0, 0, 1)"
    by (simp add: demo_def grey_def)
  have run: "solve_lorenz demo 0 1 0 (1 / 64) 10 (8 / 3) 28 =
     Inr (\<lparr>out_x0 = [[- 15, 45 / 8, - (45 / 4)]], out_t = [0, 1 / 128, 1 / 64],
           out_x_t = [[[- 15, 45 / 8, - (45 / 4)],
                       [- (6855 / 512), 1005 / 1024, - (11955 / 1024)],
                       [- (803865 / 65536), - (213148965 / 67108864),
                        - (774049595 / 67108864)]]],
           out_colors = [(0, 0, 0, 1)],
           out_lines = [\<lparr>line_x = [- 15, - (6855 / 512), - (803865 / 65536)],
                          line_y = [45 / 8, 1005 / 1024, - (213148965 / 67108864)],
                          line_z = [- (45 / 4), - (11955 / 1024), - (774049595 / 67108864)],
                          line_color = (0, 0, 0, 1), line_width = 2\<rparr>],
           out_view = (30, 0)\<rparr>, 2)"
    using solve_lorenz_steps [OF ic grid trs ps plot, of 0] by (simp add: colour)
  note th = shared_time_grid [OF run]
  have solved: "odeint demo (\<lambda>x_y_z t0. lorenz_deriv x_y_z t0 10 (8 / 3) 28)
       [- 15, 45 / 8, - (45 / 4)] [0, 1 / 128, 1 / 64] =
     Inr [[- 15, 45 / 8, - (45 / 4)],
          [- (6855 / 512), 1005 / 1024, - (11955 / 1024)],
          [- (803865 / 65536), - (213148965 / 67108864), - (774049595 / 67108864)]]"
    using th [THEN conjunct2, THEN conjunct1, rule_format, of 0] by simp
  have count: "int (length [0, 1 / 128, 1 / 64 :: real]) = py_int (fmul 250 (1 / 64))"
    unfolding three by simp
  have shape: "hd [0, 1 / 128, 1 / 64 :: real] = 0" "last [0, 1 / 128, 1 / 64 :: real] = 1 / 64"
    "[0, 1 / 128, 1 / 64 :: real] ! 1 - [0, 1 / 128, 1 / 64] ! 0 = 1 / 64 / 2"
    "[0, 1 / 128, 1 / 64 :: real] ! 2 - [0, 1 / 128, 1 / 64] ! 1 = 1 / 64 / 2"
    by simp_all
  from two late double run solved count shape show ?thesis
    by blast
qed

section \<open>Colours and plotting\<close>

text \<open>
  C8. For \<open>N \<ge> 2\<close> there are \<open>N\<close> lines; line \<open>i\<close> draws trajectory \<open>i\<close> in the colour
  at position \<open>i / (N - 1)\<close> of the colour map, a position of \<open>[0, 1]\<close> that no other
  trajectory has.
\<close>

theorem colors_evenly_spaced:
  "2 \<le> N \<Longrightarrow> solve_lorenz lib g N angle max_time sigma beta rho = Inr (out, g') \<Longrightarrow>
     length (out_x_t out) = nat N \<and> length (out_lines out) = nat N \<and>
     (\<forall>i<nat N.
         unpack_xyz (out_x_t out ! i)
           = Inr (line_x (out_lines out ! i), line_y (out_lines out ! i),
                  line_z (out_lines out ! i)) \<and>
         line_color (out_lines out ! i) = jet lib (real i / real (nat N - 1)) \<and>
         0 \<le> real i / real (nat N - 1) \<and> real i / real (nat N - 1) \<le> 1 \<and>
         (\<forall>j<nat N. j \<noteq> i \<longrightarrow> real j / real (nat N - 1) \<noteq> real i / real (nat N - 1)))"
proof -
  assume two: "2 \<le> N"
    and run: "solve_lorenz lib g N angle max_time sigma beta rho = Inr (out, g')"
  note trs = solve_lorenz_Inr(3) [OF run]
  note plot = solve_lorenz_Inr(5) [OF run]
  obtain ps where ps: "linspace 0 1 N = Inr ps" and cs: "out_colors out = map (jet lib) ps"
    using solve_lorenz_Inr(4) [OF run] by blast
  have lps: "length ps = nat N"
    using ps by (rule linspace_length)
  have count: "length (out_x_t out) = nat N"
    using trajectories_Inr(1) [OF trs] initial_conditions_length [OF solve_lorenz_Inr(1) [OF run]]
    by simp
  have each: "unpack_xyz (out_x_t out ! i)
           = Inr (line_x (out_lines out ! i), line_y (out_lines out ! i),
                  line_z (out_lines out ! i)) \<and>
         line_color (out_lines out ! i) = jet lib (real i / real (nat N - 1)) \<and>
         0 \<le> real i / real (nat N - 1) \<and> real i / real (nat N - 1) \<le> 1 \<and>
         (\<forall>j<nat N. j \<noteq> i \<longrightarrow> real j / real (nat N - 1) \<noteq> real i / real (nat N - 1))"
    if i: "i < nat N" for i
  proof -
    note one = plot_all_Inr(2) [OF plot i]
    have "ps ! i = 0 + real i * ((1 - 0) / real (nat N - 1))"
      using ps two i by (rule linspace_nth)
    then have pos: "ps ! i = real i / real (nat N - 1)"
      by simp
    have "line_color (out_lines out ! i) = out_colors out ! i"
      using one by (rule plot_one_Inr(3))
    also have "\<dots> = jet lib (ps ! i)"
      using cs i lps by simp
    finally have colour: "line_color (out_lines out ! i) = jet lib (real i / real (nat N - 1))"
      by (simp add: pos)
    have "real i \<le> real (nat N - 1)"
      using i by simp
    then have unit: "real i / real (nat N - 1) \<le> 1"
      using two by (simp add: divide_le_eq_1)
    have apart: "real j / real (nat N - 1) \<noteq> real i / real (nat N - 1)" if "j \<noteq> i" for j
      using two that by simp
    have "0 \<le> real i / real (nat N - 1)"
      by simp
    with colour unit apart plot_one_Inr(4) [OF one] show ?thesis
      by blast
  qed
  show ?thesis
    using count plot_all_Inr(1) [OF plot] each by blast
qed

theorem colors_evenly_spaced_witness:
  "(2 :: int) \<le> 2 \<and>
   solve_lorenz demo 0 2 0 (1 / 250) 10 (8 / 3) 28 =
     Inr (\<lparr>out_x0 = [[- 15, 45 / 8, - (45 / 4)], [- (45 / 8), - (15 / 2), 105 / 8]],
           out_t = [0],
           out_x_t = [[[- 15, 45 / 8, - (45 / 4)]], [[- (45 / 8), - (15 / 2), 105 / 8]]],
           out_colors = [(0, 0, 0, 1), (1, 1, 1, 1)],
           out_lines = [\<lparr>line_x = [- 15], line_y = [45 / 8], line_z = [- (45 / 4)],
                          line_color = (0, 0, 0, 1), line_width = 2\<rparr>,
                        \<lparr>line_x = [- (45 / 8)], line_y = [- (15 / 2)], line_z = [105 / 8],
                          line_color = (1, 1, 1, 1), line_width = 2\<rparr>],
           out_view = (30, 0)\<rparr>, 15) \<and>
   jet demo (real 0 / real (nat 2 - 1)) = (0, 0, 0, 1) \<and>
   jet demo (real 1 / real (nat 2 - 1)) = (1, 1, 1, 1)"
proof -
  have two: "(2 :: int) \<le> 2"
    by simp
  have black: "jet demo 0 = (0, 0, 0, 1)" and white: "jet demo 1 = (1, 1, 1, 1)"
    by (simp_all add: demo_def grey_def)
  have ic: "initial_conditions demo 0 2 =
      Inr ([[- 15, 45 / 8, - (45 / 4)], [- (45 / 8), - (15 / 2), 105 / 8]], 15)"
    by code_simp
  have p: "fmul 250 (1 / 250) = 1"
    using binary64_of_int [of 1] by (simp add: fmul_def)
  have "time_grid (1 / 250) = linspace 0 (1 / 250) 1"
    using p by (rule time_grid_eval) (simp_all add: py_int_def)
  also have "\<dots> = Inr [0]"
    by code_simp
  finally have grid: "time_grid (1 / 250) = Inr [0]" .
  have trs: "trajectories demo 10 (8 / 3) 28
                [[- 15, 45 / 8, - (45 / 4)], [- (45 / 8), - (15 / 2), 105 / 8]] [0] =
      Inr [[[- 15, 45 / 8, - (45 / 4)]], [[- (45 / 8), - (15 / 2), 105 / 8]]]"
    by code_simp
  have ps: "linspace 0 1 2 = Inr [0, 1]"
    by code_simp
  have plot: "plot_all [[[- 15, 45 / 8, - (45 / 4)]], [[- (45 / 8), - (15 / 2), 105 / 8]]]
                 (map (jet demo) [0, 1]) 2 =
      Inr [\<lparr>line_x = [- 15], line_y = [45 / 8], line_z = [- (45 / 4)],
            line_color = (0, 0, 0, 1), line_width = 2\<rparr>,
           \<lparr>line_x = [- (45 / 8)], line_y = [- (15 / 2)], line_z = [105 / 8],
            line_color = (1, 1, 1, 1), line_width = 2\<rparr>]"
    by code_simp
  have run: "solve_lorenz demo 0 2 0 (1 / 250) 10 (8 / 3) 28 =
     Inr (\<lparr>out_x0 = [[- 15, 45 / 8, - (45 / 4)], [- (45 / 8), - (15 / 2), 105 / 8]],
           out_t = [0],
           out_x_t = [[[- 15, 45 / 8, - (45 / 4)]], [[- (45 / 8), - (15 / 2), 105 / 8]]],
           out_colors = [(0, 0, 0, 1), (1, 1, 1, 1)],
           out_lines = [\<lparr>line_x = [- 15], line_y = [45 / 8], line_z = [- (45 / 4)],
                          line_color = (0, 0, 0, 1), line_width = 2\<rparr>,
                        \<lparr>line_x = [- (45 / 8)], line_y = [- (15 / 2)], line_z = [105 / 8],
                          line_color = (1, 1, 1, 1), line_width = 2\<rparr>],
           out_view = (30, 0)\<rparr>, 15)"
    using solve_lorenz_steps [OF ic grid trs ps plot, of 0] by (simp add: black white)
  note th = colors_evenly_spaced [OF two run, THEN conjunct2, THEN conjunct2, rule_format]
  have c0: "jet demo (real 0 / real (nat 2 - 1)) = (0, 0, 0, 1)"
    using th [of 0, THEN conjunct2, THEN conjunct1] by simp
  have c1: "jet demo (real 1 / real (nat 2 - 1)) = (1, 1, 1, 1)"
    using th [of 1, THEN conjunct2, THEN conjunct1] by simp
  from two run c0 c1 show ?thesis
    by blast
qed




end
